theory Spec2Isabelle
  imports Complex_Main "HOL-Library.Multiset"
begin

section \<open>Habit tracker: progress and streak calculation\<close>

text \<open>
  A shallow embedding of the progress engine of the habit tracker
  (\<^verbatim>\<open>server/src/handlers/get_habit_progress.ts\<close>), of the list endpoint's own
  current-streak code and of the write path \<^verbatim>\<open>markHabitComplete\<close>
  (\<^verbatim>\<open>server/src/handlers/mark_habit_complete.ts\<close>).

  Conventions of the model:
  \<^item> a JavaScript \<^verbatim>\<open>Date\<close> is its time value, an integer number of milliseconds since
    the epoch (\<^verbatim>\<open>getTime()\<close>);
  \<^item> the server's time zone is a parameter \<open>tz\<close>: its offset from UTC in milliseconds,
    positive east of Greenwich, the same at every instant. The local accessors
    (\<^verbatim>\<open>getDay\<close>, \<^verbatim>\<open>getFullYear\<close>, \<^verbatim>\<open>setHours\<close>, \<^verbatim>\<open>toDateString\<close>, the constructor
    \<^verbatim>\<open>new Date(y, m, d)\<close>) read the local time \<open>t + tz\<close>, while \<^verbatim>\<open>toISOString\<close> reads
    the UTC time \<open>t\<close>, as in ECMAScript;
  \<^item> every \<^verbatim>\<open>new Date()\<close> read of the clock during one call is the one parameter
    \<open>now\<close>;
  \<^item> the quotient of the completion rate is taken in the reals.
\<close>

subsection \<open>Dates\<close>

type_synonym timestamp = int

definition msPerDay :: int where
  "msPerDay = 1000 * 60 * 60 * 24"

text \<open>ECMAScript \<^verbatim>\<open>Day(t) = floor(t / msPerDay)\<close>.\<close>
definition Day :: "timestamp \<Rightarrow> int" where
  "Day t = t div msPerDay"

text \<open>ECMAScript \<^verbatim>\<open>LocalTime(t)\<close>, and the day number of the local calendar date.\<close>
definition LocalTime :: "int \<Rightarrow> timestamp \<Rightarrow> int" where
  "LocalTime tz t = t + tz"

definition localDay :: "int \<Rightarrow> timestamp \<Rightarrow> int" where
  "localDay tz t = Day (LocalTime tz t)"

text \<open>ECMAScript \<^verbatim>\<open>DayFromYear(y)\<close>: the day number of January 1 of year \<open>y\<close>.\<close>
definition DayFromYear :: "int \<Rightarrow> int" where
  "DayFromYear y =
     365 * (y - 1970) + (y - 1969) div 4 - (y - 1901) div 100 + (y - 1601) div 400"

text \<open>
  ECMAScript \<^verbatim>\<open>YearFromTime\<close>: the largest year whose first day is not after the given
  day, found by searching downwards from a year that is late enough.
\<close>
function yearDown :: "int \<Rightarrow> int \<Rightarrow> int" where
  "yearDown y d = (if DayFromYear y \<le> d then y else yearDown (y - 1) d)"
  by pat_completeness auto
termination
proof (relation "measure (\<lambda>(y, d). nat (DayFromYear y - d))")
  show "wf (measure (\<lambda>(y, d). nat (DayFromYear y - d)))" by simp
next
  fix y d :: int
  assume late: "\<not> DayFromYear y \<le> d"
  have "(y - 1970) div 4 \<le> (y - 1969) div 4" by linarith
  moreover have "(y - 1901) div 100 \<le> (y - 1902) div 100 + 1" by linarith
  moreover have "(y - 1602) div 400 \<le> (y - 1601) div 400" by linarith
  ultimately have "DayFromYear (y - 1) < DayFromYear y"
    by (simp add: DayFromYear_def algebra_simps)
  with late show "((y - 1, d), (y, d)) \<in> measure (\<lambda>(y, d). nat (DayFromYear y - d))"
    by simp
qed

declare yearDown.simps [simp del]

definition YearFromDay :: "int \<Rightarrow> int" where
  "YearFromDay d = yearDown (1970 + max 0 (d div 365)) d"

text \<open>ECMAScript \<^verbatim>\<open>InLeapYear\<close>, of a year: 1 in a leap year, 0 otherwise.\<close>
definition InLeapYear :: "int \<Rightarrow> int" where
  "InLeapYear y =
     (if y mod 4 \<noteq> 0 then 0 else if y mod 100 \<noteq> 0 then 1
      else if y mod 400 \<noteq> 0 then 0 else 1)"

text \<open>The number of days of a year before its month \<open>m\<close> (0 is January).\<close>
definition monthStart :: "int \<Rightarrow> int \<Rightarrow> int" where
  "monthStart leap m =
     (if m = 0 then 0 else if m = 1 then 31 else if m = 2 then 59 + leap
      else if m = 3 then 90 + leap else if m = 4 then 120 + leap
      else if m = 5 then 151 + leap else if m = 6 then 181 + leap
      else if m = 7 then 212 + leap else if m = 8 then 243 + leap
      else if m = 9 then 273 + leap else if m = 10 then 304 + leap
      else 334 + leap)"

text \<open>ECMAScript \<^verbatim>\<open>MonthFromTime\<close>, of the day within the year.\<close>
definition MonthFromDay :: "int \<Rightarrow> int \<Rightarrow> int" where
  "MonthFromDay leap d =
     (if d < 31 then 0 else if d < 59 + leap then 1 else if d < 90 + leap then 2
      else if d < 120 + leap then 3 else if d < 151 + leap then 4
      else if d < 181 + leap then 5 else if d < 212 + leap then 6
      else if d < 243 + leap then 7 else if d < 273 + leap then 8
      else if d < 304 + leap then 9 else if d < 334 + leap then 10 else 11)"

text \<open>
  ECMAScript \<^verbatim>\<open>MakeDay(year, month, date)\<close>: the day number of a calendar date; a month
  outside 0..11 and a date outside the month carry over.
\<close>
definition MakeDay :: "int \<Rightarrow> int \<Rightarrow> int \<Rightarrow> int" where
  "MakeDay year month date =
     (let ym = year + month div 12; mn = month mod 12
      in DayFromYear ym + monthStart (InLeapYear ym) mn + date - 1)"

text \<open>The local accessors \<^verbatim>\<open>getFullYear()\<close>, \<^verbatim>\<open>getMonth()\<close>, \<^verbatim>\<open>getDate()\<close>.\<close>
definition getFullYear :: "int \<Rightarrow> timestamp \<Rightarrow> int" where
  "getFullYear tz t = YearFromDay (localDay tz t)"

definition getMonth :: "int \<Rightarrow> timestamp \<Rightarrow> int" where
  "getMonth tz t =
     (let y = getFullYear tz t
      in MonthFromDay (InLeapYear y) (localDay tz t - DayFromYear y))"

definition getDate :: "int \<Rightarrow> timestamp \<Rightarrow> int" where
  "getDate tz t =
     (let y = getFullYear tz t
      in localDay tz t - DayFromYear y - monthStart (InLeapYear y) (getMonth tz t) + 1)"

text \<open>\<^verbatim>\<open>getDay()\<close>: the local weekday, 0 is Sunday; the epoch was a Thursday.\<close>
definition getDay :: "int \<Rightarrow> timestamp \<Rightarrow> int" where
  "getDay tz t = (localDay tz t + 4) mod 7"

text \<open>
  \<^verbatim>\<open>d.setDate(d.getDate() + n)\<close>: the same local time of day, \<open>n\<close> days later; with a
  constant offset this is \<open>n\<close> times 24 hours later.
\<close>
definition addDays :: "timestamp \<Rightarrow> int \<Rightarrow> timestamp" where
  "addDays t n = t + n * msPerDay"

text \<open>\<^verbatim>\<open>d.setHours(0, 0, 0, 0)\<close>: the local midnight that starts the local day of \<open>t\<close>.\<close>
definition startOfDay :: "int \<Rightarrow> timestamp \<Rightarrow> timestamp" where
  "startOfDay tz t = LocalTime tz t - LocalTime tz t mod msPerDay - tz"

text \<open>
  The constructor \<^verbatim>\<open>new Date(year, month, date)\<close>: local midnight of the date, a year
  from 0 to 99 standing for 1900 to 1999.
\<close>
definition newDate :: "int \<Rightarrow> int \<Rightarrow> int \<Rightarrow> int \<Rightarrow> timestamp" where
  "newDate tz year month date =
     (let yr = (if 0 \<le> year \<and> year \<le> 99 then 1900 + year else year)
      in MakeDay yr month date * msPerDay - tz)"

text \<open>
  \<^verbatim>\<open>toISOString().split('T')[0]\<close> prints the UTC calendar date and \<^verbatim>\<open>toDateString()\<close>
  the local one; the strings are only ever compared for equality, and are represented by
  the day number they denote.
\<close>
definition isoDate :: "timestamp \<Rightarrow> int" where
  "isoDate t = Day t"

definition toDateString :: "int \<Rightarrow> timestamp \<Rightarrow> int" where
  "toDateString tz t = localDay tz t"

text \<open>\<^verbatim>\<open>Math.ceil(n / 7)\<close> on an integer \<open>n\<close>.\<close>
definition ceilDiv7 :: "int \<Rightarrow> int" where
  "ceilDiv7 n = - ((- n) div 7)"

definition getWeekNumber :: "int \<Rightarrow> timestamp \<Rightarrow> int" where
  "getWeekNumber tz date =
     (let startOfYear = newDate tz (getFullYear tz date) 0 1;
          dayOfYear = (date - startOfYear) div msPerDay
      in ceilDiv7 (dayOfYear + getDay tz startOfYear + 1))"

definition dayMap :: "string \<Rightarrow> int option" where
  "dayMap = map_of
     [(''sunday'', 0), (''monday'', 1), (''tuesday'', 2), (''wednesday'', 3),
      (''thursday'', 4), (''friday'', 5), (''saturday'', 6)]"

subsection \<open>Current streak (single-habit endpoint)\<close>

text \<open>
  The loop of \<^verbatim>\<open>calculateDailyStreak\<close>: \<open>i\<close> runs from 0 to the number of completions,
  \<open>currentDate\<close> goes back one day per round; the dates are compared as UTC dates.
\<close>
function dailyLoop :: "timestamp list \<Rightarrow> nat \<Rightarrow> timestamp \<Rightarrow> nat \<Rightarrow> nat" where
  "dailyLoop completions i currentDate streak =
     (if i \<le> length completions then
        (if list_ex (\<lambda>c. isoDate c = isoDate currentDate) completions
         then dailyLoop completions (i + 1) (addDays currentDate (- 1)) (streak + 1)
         else if i > 0 then streak
         else dailyLoop completions (i + 1) (addDays currentDate (- 1)) streak)
      else streak)"
  by pat_completeness auto
termination
  by (relation "measure (\<lambda>(cs, i, d, s). length cs + 1 - i)") auto

declare dailyLoop.simps [simp del]

text \<open>\<^verbatim>\<open>today.setHours(0, 0, 0, 0)\<close> is the local midnight of now.\<close>
definition calculateDailyStreak :: "int \<Rightarrow> timestamp list \<Rightarrow> timestamp \<Rightarrow> nat" where
  "calculateDailyStreak tz completions now =
     (if completions = [] then 0
      else dailyLoop completions 0 (startOfDay tz now) 0)"

text \<open>
  The loop of \<^verbatim>\<open>calculateWeeklyStreak\<close> over \<^verbatim>\<open>uniqueWeeks\<close>; the list argument is what
  is left of it from index \<open>i\<close> on.
\<close>
fun weeklyLoop :: "int list \<Rightarrow> int \<Rightarrow> nat \<Rightarrow> nat \<Rightarrow> nat" where
  "weeklyLoop [] currentWeek i streak = streak"
| "weeklyLoop (w # ws) currentWeek i streak =
     (if w = currentWeek - int i then weeklyLoop ws currentWeek (i + 1) (streak + 1)
      else streak)"

definition calculateWeeklyStreak :: "int \<Rightarrow> timestamp list \<Rightarrow> timestamp \<Rightarrow> nat" where
  "calculateWeeklyStreak tz completions now =
     (if completions = [] then 0
      else
        let completionWeeks = map (getWeekNumber tz) completions;
            uniqueWeeks = rev (sort (remdups completionWeeks))
        in weeklyLoop uniqueWeeks (getWeekNumber tz now) 0 0)"

text \<open>
  \<^verbatim>\<open>while (currentDate.getDay() !== targetDay) currentDate.setDate(currentDate.getDate() - 1)\<close>:
  the loop has no bound of its own, \<open>None\<close> is the run that never ends.
\<close>
partial_function (option) findTargetDay ::
  "int \<Rightarrow> timestamp \<Rightarrow> int \<Rightarrow> timestamp option" where
  "findTargetDay tz currentDate targetDay =
     (if getDay tz currentDate \<noteq> targetDay
      then findTargetDay tz (addDays currentDate (- 1)) targetDay
      else Some currentDate)"

declare findTargetDay.simps [code]

text \<open>
  The counting loop of \<^verbatim>\<open>calculateSpecificDayStreak\<close>; the completion and the expected
  date are compared as UTC dates.
\<close>
fun specificDayLoop :: "timestamp list \<Rightarrow> timestamp \<Rightarrow> nat \<Rightarrow> nat" where
  "specificDayLoop [] currentDate streak = streak"
| "specificDayLoop (c # cs) currentDate streak =
     (if isoDate c = isoDate currentDate
      then specificDayLoop cs (addDays currentDate (- 7)) (streak + 1)
      else streak)"

definition calculateSpecificDayStreak ::
  "int \<Rightarrow> timestamp list \<Rightarrow> string \<Rightarrow> timestamp \<Rightarrow> nat option" where
  "calculateSpecificDayStreak tz completions dayName now =
     (if completions = [] then Some 0
      else
        let targetDay = dayMap dayName;
            dayCompletions = filter (\<lambda>c. Some (getDay tz c) = targetDay) completions
        in if dayCompletions = [] then Some 0
           else
             (case targetDay of
                None \<Rightarrow> None
              | Some target \<Rightarrow>
                  (case findTargetDay tz now target of
                     None \<Rightarrow> None
                   | Some currentDate \<Rightarrow>
                       Some (specificDayLoop (rev (sort dayCompletions)) currentDate 0))))"

definition calculateCurrentStreak ::
  "int \<Rightarrow> timestamp list \<Rightarrow> string \<Rightarrow> timestamp \<Rightarrow> nat option" where
  "calculateCurrentStreak tz completions frequency now =
     (if completions = [] then Some 0
      else
        let sortedCompletions = sort completions
        in if frequency = ''daily''
           then Some (calculateDailyStreak tz sortedCompletions now)
           else if frequency = ''weekly''
           then Some (calculateWeeklyStreak tz sortedCompletions now)
           else calculateSpecificDayStreak tz sortedCompletions frequency now)"

subsection \<open>Longest streak (single-habit endpoint)\<close>

text \<open>
  The loop of \<^verbatim>\<open>calculateLongestDailyStreak\<close>, with its three variables
  \<^verbatim>\<open>maxStreak\<close>, \<^verbatim>\<open>currentStreak\<close> and \<^verbatim>\<open>lastDate\<close>; \<^verbatim>\<open>continue\<close> leaves all three
  as they are. The dates are local midnights.
\<close>
fun longestDailyLoop ::
  "int \<Rightarrow> timestamp list \<Rightarrow> nat \<Rightarrow> nat \<Rightarrow> timestamp option \<Rightarrow> nat" where
  "longestDailyLoop tz [] maxStreak currentStreak lastDate = maxStreak"
| "longestDailyLoop tz (completion # rest) maxStreak currentStreak lastDate =
     (let currentDate = startOfDay tz completion
      in case lastDate of
           None \<Rightarrow> longestDailyLoop tz rest (max maxStreak 1) 1 (Some currentDate)
         | Some l \<Rightarrow>
             (let daysDiff = (currentDate - l) div msPerDay
              in if daysDiff = 1 then
                   longestDailyLoop tz rest (max maxStreak (currentStreak + 1))
                     (currentStreak + 1) (Some currentDate)
                 else if daysDiff = 0 then
                   longestDailyLoop tz rest maxStreak currentStreak lastDate
                 else longestDailyLoop tz rest (max maxStreak 1) 1 (Some currentDate)))"

definition calculateLongestDailyStreak :: "int \<Rightarrow> timestamp list \<Rightarrow> nat" where
  "calculateLongestDailyStreak tz completions =
     (if completions = [] then 0 else longestDailyLoop tz completions 0 0 None)"

text \<open>
  The loop shared by \<^verbatim>\<open>calculateLongestWeeklyStreak\<close> and
  \<^verbatim>\<open>calculateLongestSpecificDayStreak\<close>: one round per week number.
\<close>
fun longestWeekLoop :: "int list \<Rightarrow> nat \<Rightarrow> nat \<Rightarrow> int option \<Rightarrow> nat" where
  "longestWeekLoop [] maxStreak currentStreak lastWeek = maxStreak"
| "longestWeekLoop (week # rest) maxStreak currentStreak lastWeek =
     (let currentStreak' =
            (if lastWeek = None \<or> Some week = map_option (\<lambda>l. l + 1) lastWeek
             then currentStreak + 1 else 1)
      in longestWeekLoop rest (max maxStreak currentStreak') currentStreak' (Some week))"

definition calculateLongestWeeklyStreak :: "int \<Rightarrow> timestamp list \<Rightarrow> nat" where
  "calculateLongestWeeklyStreak tz completions =
     (if completions = [] then 0
      else
        let completionWeeks = map (getWeekNumber tz) completions;
            uniqueWeeks = sort (remdups completionWeeks)
        in longestWeekLoop uniqueWeeks 0 0 None)"

definition calculateLongestSpecificDayStreak ::
  "int \<Rightarrow> timestamp list \<Rightarrow> string \<Rightarrow> nat" where
  "calculateLongestSpecificDayStreak tz completions dayName =
     (let targetDay = dayMap dayName;
          dayCompletions =
            sort (filter (\<lambda>c. Some (getDay tz c) = targetDay) completions)
      in if dayCompletions = [] then 0
         else longestWeekLoop (map (getWeekNumber tz) dayCompletions) 0 0 None)"

definition calculateLongestStreak :: "int \<Rightarrow> timestamp list \<Rightarrow> string \<Rightarrow> nat" where
  "calculateLongestStreak tz completions frequency =
     (if completions = [] then 0
      else
        let sortedCompletions = sort completions
        in if frequency = ''daily'' then calculateLongestDailyStreak tz sortedCompletions
           else if frequency = ''weekly''
           then calculateLongestWeeklyStreak tz sortedCompletions
           else calculateLongestSpecificDayStreak tz sortedCompletions frequency)"

subsection \<open>Completion rate (single-habit endpoint)\<close>

text \<open>
  \<^verbatim>\<open>while (currentDate <= now)\<close> of \<^verbatim>\<open>calculateCompletionRate\<close>: one round per day from
  the creation time on, counting the days that fall on the target weekday.
\<close>
function occurrencesLoop ::
  "int \<Rightarrow> timestamp \<Rightarrow> timestamp \<Rightarrow> int option \<Rightarrow> nat \<Rightarrow> nat" where
  "occurrencesLoop tz currentDate now targetDay occurrences =
     (if currentDate \<le> now then
        occurrencesLoop tz (addDays currentDate 1) now targetDay
          (if Some (getDay tz currentDate) = targetDay then occurrences + 1
           else occurrences)
      else occurrences)"
  by pat_completeness auto
termination
  by (relation "measure (\<lambda>(z, c, n, t, k). nat (n - c + 1))")
     (auto simp: addDays_def msPerDay_def)

declare occurrencesLoop.simps [simp del]

text \<open>The value of the local variable \<^verbatim>\<open>expectedCompletions\<close> at the final division.\<close>
definition expectedCompletions :: "int \<Rightarrow> string \<Rightarrow> timestamp \<Rightarrow> timestamp \<Rightarrow> int" where
  "expectedCompletions tz frequency created now =
     (if frequency = ''daily'' then
        (let daysDiff = (now - created) div msPerDay + 1 in max daysDiff 1)
      else if frequency = ''weekly'' then
        (let weeksDiff = (now - created) div (msPerDay * 7) + 1 in max weeksDiff 1)
      else
        (let targetDay = dayMap frequency;
             occurrences = int (occurrencesLoop tz created now targetDay 0)
         in max occurrences 1))"

definition calculateCompletionRate ::
  "int \<Rightarrow> timestamp list \<Rightarrow> string \<Rightarrow> timestamp \<Rightarrow> timestamp \<Rightarrow> real" where
  "calculateCompletionRate tz completions frequency createdAt now =
     (if completions = [] then 0
      else min (real (length completions)
                  / real_of_int (expectedCompletions tz frequency createdAt now)) 1)"

subsection \<open>Storage and the single-habit endpoint\<close>

record habit =
  h_id :: nat
  h_name :: string
  h_frequency :: string
  h_created_at :: timestamp

record habitCompletion =
  c_id :: nat
  c_habit_id :: nat
  completed_date :: timestamp
  c_created_at :: timestamp

record db =
  habitsTable :: "habit list"
  habitCompletionsTable :: "habitCompletion list"
  nextCompletionId :: nat

record habitProgress =
  habit_id :: nat
  current_streak :: nat
  longest_streak :: nat
  last_completed_date :: "timestamp option"
  total_completions :: nat
  completion_rate :: real

text \<open>
  The second query of \<^verbatim>\<open>getHabitProgress\<close>: the rows of one habit, most recent first.
  The calculation reads the column \<^verbatim>\<open>completed_date\<close> of these rows and nothing else.
\<close>
definition selectCompletions :: "db \<Rightarrow> nat \<Rightarrow> timestamp list" where
  "selectCompletions d hid =
     map completed_date
       (rev (sort_key completed_date
          (filter (\<lambda>c. c_habit_id c = hid) (habitCompletionsTable d))))"

text \<open>
  The part of \<^verbatim>\<open>getHabitProgress\<close> after its two queries (from \<^verbatim>\<open>// Basic stats\<close> to
  the returned record), as a function of the fetched \<open>completions\<close> in the order they
  have. \<open>None\<close> is a computation that does not return.
\<close>
definition progressOfCompletions ::
  "int \<Rightarrow> nat \<Rightarrow> habit \<Rightarrow> timestamp list \<Rightarrow> timestamp \<Rightarrow> habitProgress option" where
  "progressOfCompletions tz input_id habitData completions now =
     (let totalCompletions = length completions;
          lastCompletedDate =
            (case completions of [] \<Rightarrow> None | c # _ \<Rightarrow> Some c);
          longestStreak = calculateLongestStreak tz completions (h_frequency habitData);
          completionRate =
            calculateCompletionRate tz completions (h_frequency habitData)
              (h_created_at habitData) now
      in case (if completions = [] then Some 0
               else calculateCurrentStreak tz completions (h_frequency habitData) now) of
           None \<Rightarrow> None
         | Some currentStreak \<Rightarrow>
             Some \<lparr> habit_id = input_id,
                    current_streak = currentStreak,
                    longest_streak = longestStreak,
                    last_completed_date = lastCompletedDate,
                    total_completions = totalCompletions,
                    completion_rate = completionRate \<rparr>)"

text \<open>
  \<^verbatim>\<open>getHabitProgress\<close>. The outer \<open>None\<close> is a call that does not return, the inner one
  is the result \<^verbatim>\<open>null\<close> for a habit that does not exist.
\<close>
definition getHabitProgress ::
  "int \<Rightarrow> db \<Rightarrow> nat \<Rightarrow> timestamp \<Rightarrow> habitProgress option option" where
  "getHabitProgress tz d input_id now =
     (case filter (\<lambda>h. h_id h = input_id) (habitsTable d) of
        [] \<Rightarrow> Some None
      | habitData # _ \<Rightarrow>
          map_option Some
            (progressOfCompletions tz input_id habitData (selectCompletions d input_id) now))"

subsection \<open>The list endpoint's current streak\<close>

text \<open>
  \<^verbatim>\<open>getHabitsWithProgress\<close> computes the streaks of every habit in line, with no regard
  to the habit's frequency; its current streak is modelled here. A date is normalised by
  \<^verbatim>\<open>new Date(date.getFullYear(), date.getMonth(), date.getDate())\<close>.
\<close>
definition normalizeDate :: "int \<Rightarrow> timestamp \<Rightarrow> timestamp" where
  "normalizeDate tz date = newDate tz (getFullYear tz date) (getMonth tz date) (getDate tz date)"

text \<open>\<open>uniqueDates\<close> are the distinct normalised dates, ascending.\<close>
definition uniqueDates :: "int \<Rightarrow> timestamp list \<Rightarrow> timestamp list" where
  "uniqueDates tz completions =
     (let sortedCompletions = rev completions;
          completionDates = map (normalizeDate tz) sortedCompletions
      in sort (remdups completionDates))"

text \<open>
  \<^verbatim>\<open>for (let i = uniqueDates.length - 2; i >= 0; i--)\<close>: the argument \<open>Suc i\<close> is the
  index \<^verbatim>\<open>i + 1\<close> of \<^verbatim>\<open>currentDate\<close>.
\<close>
fun listCurrentLoop :: "timestamp list \<Rightarrow> nat \<Rightarrow> nat \<Rightarrow> nat" where
  "listCurrentLoop dates 0 currentStreak = currentStreak"
| "listCurrentLoop dates (Suc i) currentStreak =
     (let currentDate = dates ! Suc i;
          previousDate = dates ! i;
          daysDiff = (currentDate - previousDate) div msPerDay
      in if daysDiff = 1 then listCurrentLoop dates i (currentStreak + 1)
         else currentStreak)"

definition listCurrentStreak :: "int \<Rightarrow> timestamp list \<Rightarrow> timestamp \<Rightarrow> nat" where
  "listCurrentStreak tz completions now =
     (if completions = [] then 0
      else
        let dates = uniqueDates tz completions;
            todayNormalized = normalizeDate tz now
        in if dates = [] then 0
           else
             let mostRecentDate = dates ! (length dates - 1);
                 daysSinceLastCompletion = (todayNormalized - mostRecentDate) div msPerDay
             in if daysSinceLastCompletion \<le> 1
                then listCurrentLoop dates (length dates - 1) 1
                else 0)"

subsection \<open>The write path\<close>

datatype error = HabitNotFound | AlreadyCompleted

record markHabitCompleteInput =
  in_habit_id :: nat
  in_completed_date :: "timestamp option"

text \<open>
  \<^verbatim>\<open>markHabitComplete\<close>: the result is the thrown error or the inserted row, together
  with the storage after the call.
\<close>
definition markHabitComplete ::
  "int \<Rightarrow> db \<Rightarrow> markHabitCompleteInput \<Rightarrow> timestamp \<Rightarrow> (error + habitCompletion) \<times> db" where
  "markHabitComplete tz d input now =
     (let completedDate =
            (case in_completed_date input of Some t \<Rightarrow> t | None \<Rightarrow> now);
          existingHabit = filter (\<lambda>h. h_id h = in_habit_id input) (habitsTable d)
      in if existingHabit = [] then (Inl HabitNotFound, d)
         else
           let completedDateStr = toDateString tz completedDate;
               existingCompletions =
                 filter (\<lambda>c. c_habit_id c = in_habit_id input) (habitCompletionsTable d);
               duplicateCompletion =
                 find (\<lambda>completion.
                         toDateString tz (completed_date completion) = completedDateStr)
                   existingCompletions
           in if duplicateCompletion \<noteq> None then (Inl AlreadyCompleted, d)
              else
                let row = \<lparr> c_id = nextCompletionId d,
                            c_habit_id = in_habit_id input,
                            completed_date = completedDate,
                            c_created_at = now \<rparr>
                in (Inr row,
                    d \<lparr> habitCompletionsTable := habitCompletionsTable d @ [row],
                        nextCompletionId := nextCompletionId d + 1 \<rparr>))"

subsection \<open>Vocabulary of the properties\<close>


text \<open>
  The calendar week of a timestamp in the server's zone: weeks start on Sunday and are
  numbered through the years, so that consecutive calendar weeks differ by 1.
\<close>
definition calendarWeek :: "int \<Rightarrow> timestamp \<Rightarrow> int" where
  "calendarWeek tz t = (localDay tz t + 4) div 7"



text \<open>
  \<open>weeklyOccurrences a n\<close>: \<open>n\<close> completions seven days apart, the first at \<open>a\<close>.
\<close>
definition weeklyOccurrences :: "timestamp \<Rightarrow> nat \<Rightarrow> timestamp list" where
  "weeklyOccurrences a n = map (\<lambda>j. addDays a (7 * int j)) [0..<n]"

section \<open>Properties\<close>

subsection \<open>Helper facts: unknown frequencies, the write path\<close>

lemma dayMap_unknown:
  "f \<notin> {''sunday'', ''monday'', ''tuesday'', ''wednesday'', ''thursday'', ''friday'',
          ''saturday''} \<Longrightarrow> dayMap f = None"
  by (simp add: dayMap_def)

lemma occurrencesLoop_None: "t = None \<Longrightarrow> occurrencesLoop tz c now t k = k"
proof (induction tz c now t k rule: occurrencesLoop.induct)
  case (1 tz currentDate now targetDay occurrences)
  then show ?case
    by (subst occurrencesLoop.simps) simp
qed

lemma expectedCompletions_ge_1: "1 \<le> expectedCompletions tz f c now"
  by (simp add: expectedCompletions_def Let_def)

lemma unknown_current:
  assumes "dayMap f = None" "f \<noteq> ''daily''" "f \<noteq> ''weekly''"
  shows "calculateCurrentStreak tz cs f now = Some 0"
  using assms
  by (simp add: calculateCurrentStreak_def calculateSpecificDayStreak_def Let_def)

lemma unknown_longest:
  assumes "dayMap f = None" "f \<noteq> ''daily''" "f \<noteq> ''weekly''"
  shows "calculateLongestStreak tz cs f = 0"
  using assms
  by (simp add: calculateLongestStreak_def calculateLongestSpecificDayStreak_def Let_def)

lemma unknown_rate:
  assumes "dayMap f = None" "f \<noteq> ''daily''" "f \<noteq> ''weekly''"
  shows "calculateCompletionRate tz cs f c now = (if cs = [] then 0 else 1)"
proof -
  have "expectedCompletions tz f c now = 1"
    using assms by (simp add: expectedCompletions_def occurrencesLoop_None)
  moreover have "cs \<noteq> [] \<Longrightarrow> 1 \<le> real (length cs)"
    by (cases cs) simp_all
  ultimately show ?thesis
    by (simp add: calculateCompletionRate_def)
qed

lemma find_filter_None:
  "(find P (filter Q xs) = None) = (\<not> list_ex (\<lambda>x. Q x \<and> P x) xs)"
  by (auto simp: find_None_iff list_ex_iff)

lemma find_filter_Some:
  "(\<exists>y. find P (filter Q xs) = Some y) = list_ex (\<lambda>x. Q x \<and> P x) xs"
  using find_filter_None [of P Q xs] by (metis not_None_eq)

lemma filter_Nil_list_ex: "(filter P xs = []) = (\<not> list_ex P xs)"
  by (auto simp: filter_empty_conv list_ex_iff)

subsection \<open>Helper facts: days and runs\<close>


lemma localDay_addDays: "localDay tz (addDays t n) = localDay tz t + n"
  by (simp add: localDay_def LocalTime_def Day_def addDays_def msPerDay_def algebra_simps)



lemma localDay_midnight: "localDay tz (d * msPerDay - tz) = d"
  by (simp add: localDay_def LocalTime_def Day_def msPerDay_def)






lemma sort_Nil: "sort cs = [] \<longleftrightarrow> cs = []"
  by (metis length_0_conv length_sort)


subsection \<open>Helper facts: years, months and week numbers\<close>

lemma div_step:
  fixes x k :: int
  assumes "0 < k"
  shows "x div k = (x - 1) div k + (if k dvd x then 1 else 0)"
proof (cases "k dvd x")
  case True
  then obtain q where q: "x = k * q" ..
  have "x - 1 = k * (q - 1) + (k - 1)" by (simp add: q algebra_simps)
  then have "(x - 1) div k = q - 1"
    using assms by (intro int_div_pos_eq [where r = "k - 1"]) simp_all
  with True q assms show ?thesis by simp
next
  case False
  then have "x mod k \<noteq> 0" by (simp add: dvd_eq_mod_eq_0)
  moreover have "0 \<le> x mod k" "x mod k < k" using assms by simp_all
  ultimately have r: "0 \<le> x mod k - 1" "x mod k - 1 < k" by simp_all
  have "x - 1 = k * (x div k) + (x mod k - 1)" by simp
  then have "(x - 1) div k = x div k"
    using r by (rule int_div_pos_eq)
  with False show ?thesis by simp
qed

lemma leap_dvd:
  fixes y :: int
  shows "100 dvd (y - 1900) \<Longrightarrow> 4 dvd (y - 1968)"
    and "400 dvd (y - 1600) \<Longrightarrow> 100 dvd (y - 1900)"
proof -
  assume "100 dvd (y - 1900)"
  then obtain q where "y - 1900 = 100 * q" ..
  then have "y - 1968 = 4 * (25 * q - 17)" by simp
  then show "4 dvd (y - 1968)" by (rule dvdI)
next
  assume "400 dvd (y - 1600)"
  then obtain q where "y - 1600 = 400 * q" ..
  then have "y - 1900 = 100 * (4 * q - 3)" by simp
  then show "100 dvd (y - 1900)" by (rule dvdI)
qed

lemma DayFromYear_next:
  "DayFromYear y + 365 \<le> DayFromYear (y + 1)" "DayFromYear (y + 1) \<le> DayFromYear y + 366"
proof -
  have a: "(y - 1968) div 4 = (y - 1969) div 4 + (if 4 dvd (y - 1968) then 1 else 0)"
    using div_step [of 4 "y - 1968"] by simp
  have b: "(y - 1900) div 100 = (y - 1901) div 100 + (if 100 dvd (y - 1900) then 1 else 0)"
    using div_step [of 100 "y - 1900"] by simp
  have c: "(y - 1600) div 400 = (y - 1601) div 400 + (if 400 dvd (y - 1600) then 1 else 0)"
    using div_step [of 400 "y - 1600"] by simp
  have eq: "DayFromYear (y + 1) = DayFromYear y + 365
      + (if 4 dvd (y - 1968) then 1 else 0) - (if 100 dvd (y - 1900) then 1 else 0)
      + (if 400 dvd (y - 1600) then 1 else 0)"
    unfolding DayFromYear_def using a b c by (simp add: algebra_simps)
  show "DayFromYear y + 365 \<le> DayFromYear (y + 1)"
    unfolding eq using leap_dvd(1) [of y] by simp
  show "DayFromYear (y + 1) \<le> DayFromYear y + 366"
    unfolding eq using leap_dvd(2) [of y] by simp
qed

lemma DayFromYear_gap: "DayFromYear y + 365 \<le> DayFromYear (y + 1 + int n)"
proof (induction n)
  case 0
  then show ?case using DayFromYear_next(1) [of y] by simp
next
  case (Suc n)
  have "DayFromYear (y + 1 + int n) + 365 \<le> DayFromYear (y + 1 + int n + 1)"
    by (rule DayFromYear_next(1))
  with Suc show ?case by (simp add: algebra_simps)
qed

lemma DayFromYear_less: "y < y' \<Longrightarrow> DayFromYear y + 365 \<le> DayFromYear y'"
  using DayFromYear_gap [of y "nat (y' - y - 1)"] by simp

lemma DayFromYear_mono: "y \<le> y' \<Longrightarrow> DayFromYear y \<le> DayFromYear y'"
  using DayFromYear_less [of y y'] by (cases "y = y'") simp_all

lemma yearDown_spec:
  "d < DayFromYear (y + 1) \<Longrightarrow>
   DayFromYear (yearDown y d) \<le> d \<and> d < DayFromYear (yearDown y d + 1)"
proof (induction y d rule: yearDown.induct)
  case (1 y d)
  show ?case
  proof (cases "DayFromYear y \<le> d")
    case True
    with 1(2) show ?thesis by (subst (1 2) yearDown.simps) simp
  next
    case False
    with 1(1) have "DayFromYear (yearDown (y - 1) d) \<le> d \<and>
        d < DayFromYear (yearDown (y - 1) d + 1)" by simp
    with False show ?thesis by (subst (1 2) yearDown.simps) simp
  qed
qed

lemma DayFromYear_lower: "0 \<le> n \<Longrightarrow> 365 * n \<le> DayFromYear (1970 + n)"
proof -
  assume "0 \<le> n"
  then have "DayFromYear 1970 + 365 * n \<le> DayFromYear (1970 + n)"
  proof (induction n rule: int_ge_induct)
    case base
    then show ?case by simp
  next
    case (step i)
    with DayFromYear_next(1) [of "1970 + i"] show ?case by (simp add: algebra_simps)
  qed
  then show ?thesis by (simp add: DayFromYear_def)
qed

lemma YearFromDay_spec:
  "DayFromYear (YearFromDay d) \<le> d" "d < DayFromYear (YearFromDay d + 1)"
proof -
  let ?n = "max 0 (d div 365)"
  have "365 * (?n + 1) \<le> DayFromYear (1970 + (?n + 1))"
    by (rule DayFromYear_lower) simp
  moreover have "d < 365 * (?n + 1)"
    by (cases "0 \<le> d") (simp_all add: max_def, linarith+)
  ultimately have "d < DayFromYear (1970 + ?n + 1)" by (simp add: algebra_simps)
  from yearDown_spec [OF this]
  show "DayFromYear (YearFromDay d) \<le> d" "d < DayFromYear (YearFromDay d + 1)"
    by (simp_all add: YearFromDay_def)
qed

lemma getFullYear_spec:
  "DayFromYear (getFullYear tz t) \<le> localDay tz t"
  "localDay tz t < DayFromYear (getFullYear tz t + 1)"
  unfolding getFullYear_def by (rule YearFromDay_spec)+



text \<open>The January 1 that the constructor returns for a year.\<close>
lemma newDate_Jan1:
  "newDate tz y 0 1 =
     DayFromYear (if 0 \<le> y \<and> y \<le> 99 then 1900 + y else y) * msPerDay - tz"
  by (simp add: newDate_def MakeDay_def monthStart_def Let_def)

lemma ceilDiv7_Suc: "ceilDiv7 (n + 1) = n div 7 + 1"
proof -
  have "n = 7 * (n div 7) + n mod 7" by simp
  moreover have "0 \<le> n mod 7" "n mod 7 < 7" by simp_all
  ultimately have "(- (n + 1)) div 7 = - (n div 7) - 1" by linarith
  then show ?thesis by (simp add: ceilDiv7_def)
qed

text \<open>
  The week number is the calendar week counted from the week of the January 1 that the
  constructor returns for the date's year.
\<close>
lemma getWeekNumber_eq:
  "getWeekNumber tz t =
     calendarWeek tz t
       - (DayFromYear (if 0 \<le> getFullYear tz t \<and> getFullYear tz t \<le> 99
                       then 1900 + getFullYear tz t else getFullYear tz t) + 4) div 7 + 1"
proof -
  let ?D = "DayFromYear (if 0 \<le> getFullYear tz t \<and> getFullYear tz t \<le> 99
                       then 1900 + getFullYear tz t else getFullYear tz t)"
  let ?start = "?D * msPerDay - tz"
  have doy: "(t - ?start) div msPerDay = localDay tz t - ?D"
    by (simp add: localDay_def LocalTime_def Day_def msPerDay_def algebra_simps)
  have wd: "getDay tz ?start = (?D + 4) mod 7"
    by (simp add: getDay_def localDay_midnight)
  have "?D + 4 = 7 * ((?D + 4) div 7) + (?D + 4) mod 7" by simp
  then have "localDay tz t - ?D + (?D + 4) mod 7 + 1
          = (localDay tz t + 4 - 7 * ((?D + 4) div 7)) + 1"
    by linarith
  then have "ceilDiv7 (localDay tz t - ?D + (?D + 4) mod 7 + 1)
          = (localDay tz t + 4 - 7 * ((?D + 4) div 7)) div 7 + 1"
    by (simp only: ceilDiv7_Suc)
  also have "\<dots> = (localDay tz t + 4) div 7 - (?D + 4) div 7 + 1"
    by simp
  finally show ?thesis
    unfolding getWeekNumber_def newDate_Jan1 Let_def doy wd calendarWeek_def .
qed

lemma getWeekNumber_same_year:
  assumes "getFullYear tz a = getFullYear tz b"
  shows "getWeekNumber tz a - getWeekNumber tz b = calendarWeek tz a - calendarWeek tz b"
  unfolding getWeekNumber_eq assms by simp

lemma calendarWeek_addDays: "calendarWeek tz (addDays t (7 * n)) = calendarWeek tz t + n"
  by (simp add: calendarWeek_def localDay_addDays)

subsection \<open>Helper facts: weekly and weekday current streaks\<close>




lemma getDay_addDays: "getDay tz (addDays t n) = (getDay tz t + n) mod 7"
  by (simp add: getDay_def localDay_addDays mod_simps algebra_simps)

lemma getDay_range: "0 \<le> getDay tz t" "getDay tz t < 7"
  by (simp_all add: getDay_def)

lemma mod7_zero:
  fixes g t :: int
  assumes "0 \<le> g" "g < 7" "0 \<le> t" "t < 7" "(g - t) mod 7 = 0"
  shows "g = t"
proof -
  from assms(5) have "7 dvd (g - t)" by (simp add: dvd_eq_mod_eq_0)
  then obtain q where q: "g - t = 7 * q" ..
  with assms(1-4) have "- 1 < q" "q < 1" by linarith+
  with q show ?thesis by simp
qed

lemma findTargetDay_steps:
  "0 \<le> target \<Longrightarrow> target < 7 \<Longrightarrow> (getDay tz now - target) mod 7 = int n \<Longrightarrow>
   findTargetDay tz now target = Some (addDays now (- int n))"
proof (induction n arbitrary: now)
  case 0
  with getDay_range [of tz now] have "getDay tz now = target" by - (rule mod7_zero, simp_all)
  then show ?case by (subst findTargetDay.simps) (simp add: addDays_def)
next
  case (Suc n)
  then have ne: "getDay tz now \<noteq> target" by auto
  have "(getDay tz now - 1 - target) mod 7 = ((getDay tz now - target) mod 7 - 1) mod 7"
    by (simp add: mod_simps algebra_simps)
  also have "\<dots> = int n" using Suc.prems(3) by simp
  finally have "(getDay tz (addDays now (- 1)) - target) mod 7 = int n"
    unfolding getDay_addDays by (simp add: mod_simps)
  from Suc.IH [OF Suc.prems(1,2) this]
  have "findTargetDay tz (addDays now (- 1)) target = Some (addDays now (- int (Suc n)))"
    by (simp add: addDays_def algebra_simps)
  with ne show ?case by (subst findTargetDay.simps) simp
qed

lemma findTargetDay_anchor:
  assumes "0 \<le> target" and "target < 7"
  shows "\<exists>anchor n. findTargetDay tz now target = Some anchor \<and>
           getDay tz anchor = target \<and> anchor = addDays now (- int n) \<and> n \<le> 6"
proof -
  define n where "n = nat ((getDay tz now - target) mod 7)"
  have n: "(getDay tz now - target) mod 7 = int n" "int n \<le> 6" by (simp_all add: n_def)
  have "(getDay tz now - (getDay tz now - target) mod 7) mod 7 = target mod 7"
    by (simp add: mod_simps)
  then have "getDay tz (addDays now (- int n)) = target"
    unfolding getDay_addDays using n(1) assms by simp
  with findTargetDay_steps [OF assms n(1)] n(2) show ?thesis
    by auto
qed


lemma dayMap_Some:
  assumes "dayMap f = Some target"
  shows "0 \<le> target" "target < 7" "f \<noteq> ''daily''" "f \<noteq> ''weekly''"
  using assms by (auto simp: dayMap_def split: if_splits)









text \<open>The weekday branch returns: the search for the target weekday ends.\<close>
lemma calculateSpecificDayStreak_returns:
  "\<exists>s. calculateSpecificDayStreak tz cs dayName now = Some s"
proof (cases "filter (\<lambda>c. Some (getDay tz c) = dayMap dayName) cs = []")
  case True
  then show ?thesis by (simp add: calculateSpecificDayStreak_def Let_def)
next
  case False
  then obtain c where "c \<in> set cs" "Some (getDay tz c) = dayMap dayName"
    by (auto simp: filter_empty_conv)
  then have target: "dayMap dayName = Some (getDay tz c)" by simp
  obtain anchor where "findTargetDay tz now (getDay tz c) = Some anchor"
    using findTargetDay_anchor [where target = "getDay tz c" and tz = tz and now = now]
      getDay_range [of tz c] by blast
  with False target show ?thesis
    by (simp add: calculateSpecificDayStreak_def Let_def)
qed

lemma calculateCurrentStreak_returns:
  "\<exists>s. calculateCurrentStreak tz cs frequency now = Some s"
  using calculateSpecificDayStreak_returns [of tz "sort cs" frequency now]
  by (simp add: calculateCurrentStreak_def Let_def)

lemma progressOfCompletions_returns:
  "\<exists>p. progressOfCompletions tz i h cs now = Some p"
proof -
  obtain s where "calculateCurrentStreak tz cs (h_frequency h) now = Some s"
    using calculateCurrentStreak_returns by blast
  then show ?thesis by (simp add: progressOfCompletions_def Let_def)
qed

subsection \<open>Helper facts: the query\<close>

lemma map_sort_key: "map f (sort_key f xs) = sort (map f xs)"
  by (rule properties_for_sort [symmetric]) simp_all

lemma selectCompletions_eq:
  "selectCompletions d i =
     rev (sort (map completed_date (filter (\<lambda>c. c_habit_id c = i) (habitCompletionsTable d))))"
  unfolding selectCompletions_def rev_map [symmetric] map_sort_key ..

lemma sort_mset_cong: "mset xs = mset ys \<Longrightarrow> sort xs = sort (ys :: int list)"
  by (rule properties_for_sort) simp_all

lemma selectCompletions_perm:
  assumes "mset (habitCompletionsTable d') = mset (habitCompletionsTable d)"
  shows "selectCompletions d' i = selectCompletions d i"
proof -
  have "mset (map completed_date (filter (\<lambda>c. c_habit_id c = i) (habitCompletionsTable d')))
      = mset (map completed_date (filter (\<lambda>c. c_habit_id c = i) (habitCompletionsTable d)))"
    using assms by (simp add: mset_filter [symmetric] del: mset_filter) (metis mset_filter mset_map)
  then show ?thesis
    unfolding selectCompletions_eq by (simp add: sort_mset_cong)
qed

lemma length_selectCompletions:
  "length (selectCompletions d i)
     = length (filter (\<lambda>c. c_habit_id c = i) (habitCompletionsTable d))"
  by (simp add: selectCompletions_def)

lemma set_selectCompletions:
  "set (selectCompletions d i)
     = completed_date ` set (filter (\<lambda>c. c_habit_id c = i) (habitCompletionsTable d))"
  by (simp add: selectCompletions_def)

lemma selectCompletions_Nil:
  "selectCompletions d i = [] \<longleftrightarrow>
     filter (\<lambda>c. c_habit_id c = i) (habitCompletionsTable d) = []"
  using length_selectCompletions [of d i] by (metis length_0_conv)

lemma selectCompletions_descending:
  "sorted_wrt (\<lambda>x y. y \<le> x) (selectCompletions d i)"
  unfolding selectCompletions_eq sorted_wrt_rev by simp

lemma selectCompletions_head:
  assumes "selectCompletions d i = c # cs"
  shows "c = Max (set (selectCompletions d i))"
proof -
  from selectCompletions_descending [of d i] assms
  have "\<forall>y\<in>set cs. y \<le> c" by simp
  then show ?thesis
    unfolding assms by (intro Max_eqI [symmetric]) auto
qed

text \<open>
  The calculation reads the completions through \<open>sort\<close>, their number and whether there
  are any; the first element alone depends on the order.
\<close>
lemma calculateCurrentStreak_perm:
  assumes "mset cs' = mset cs"
  shows "calculateCurrentStreak tz cs' f now = calculateCurrentStreak tz cs f now"
proof -
  have "sort cs' = sort cs" using assms by (rule sort_mset_cong)
  moreover have "(cs' = []) = (cs = [])" using assms by (metis mset_zero_iff)
  ultimately show ?thesis by (simp add: calculateCurrentStreak_def)
qed

lemma calculateLongestStreak_perm:
  assumes "mset cs' = mset cs"
  shows "calculateLongestStreak tz cs' f = calculateLongestStreak tz cs f"
proof -
  have "sort cs' = sort cs" using assms by (rule sort_mset_cong)
  moreover have "(cs' = []) = (cs = [])" using assms by (metis mset_zero_iff)
  ultimately show ?thesis by (simp add: calculateLongestStreak_def)
qed

lemma calculateCompletionRate_perm:
  assumes "mset cs' = mset cs"
  shows "calculateCompletionRate tz cs' f created now
           = calculateCompletionRate tz cs f created now"
proof -
  have "length cs' = length cs" using assms by (rule mset_eq_length)
  moreover have "(cs' = []) = (cs = [])" using assms by (metis mset_zero_iff)
  ultimately show ?thesis by (simp add: calculateCompletionRate_def)
qed

lemma progressOfCompletions_fields:
  assumes "progressOfCompletions tz i h cs now = Some p"
  shows "habit_id p = i"
    and "Some (current_streak p)
           = (if cs = [] then Some 0 else calculateCurrentStreak tz cs (h_frequency h) now)"
    and "longest_streak p = calculateLongestStreak tz cs (h_frequency h)"
    and "last_completed_date p = (case cs of [] \<Rightarrow> None | c # _ \<Rightarrow> Some c)"
    and "total_completions p = length cs"
    and "completion_rate p
           = calculateCompletionRate tz cs (h_frequency h) (h_created_at h) now"
  using assms
  by (auto simp: progressOfCompletions_def Let_def split: option.splits if_splits)

subsection \<open>Helper facts: the one-day grace in both endpoints\<close>









subsection \<open>Helper facts: current streaks in calendar terms\<close>




subsection \<open>Helper facts: week numbers across a year boundary\<close>

lemma year_boundary_weeks:
  assumes "100 \<le> getFullYear tz a" and "getFullYear tz a < getFullYear tz b"
    and "localDay tz b - localDay tz a \<le> 13"
  shows "getWeekNumber tz b \<le> 3" and "51 \<le> getWeekNumber tz a"
proof -
  let ?Da = "DayFromYear (getFullYear tz a)" and ?Db = "DayFromYear (getFullYear tz b)"
  have ya: "(0 \<le> getFullYear tz a \<and> getFullYear tz a \<le> 99) = False"
    using assms(1) by simp
  have yb: "(0 \<le> getFullYear tz b \<and> getFullYear tz b \<le> 99) = False"
    using assms(1,2) by simp
  have wa: "getWeekNumber tz a = (localDay tz a + 4) div 7 - (?Da + 4) div 7 + 1"
    unfolding getWeekNumber_eq ya if_False calendarWeek_def ..
  have wb: "getWeekNumber tz b = (localDay tz b + 4) div 7 - (?Db + 4) div 7 + 1"
    unfolding getWeekNumber_eq yb if_False calendarWeek_def ..
  have "getFullYear tz a + 1 \<le> getFullYear tz b" using assms(2) by simp
  from DayFromYear_mono [OF this] getFullYear_spec(2) [of tz a]
  have 1: "localDay tz a < ?Db" by simp
  have 2: "?Db \<le> localDay tz b" by (rule getFullYear_spec(1))
  have 3: "?Da + 365 \<le> ?Db" by (rule DayFromYear_less [OF assms(2)])
  from 1 2 assms(3) show "getWeekNumber tz b \<le> 3"
    unfolding wb by linarith
  from 1 2 3 assms(3) show "51 \<le> getWeekNumber tz a"
    unfolding wa by linarith
qed

text \<open>Weekly occurrences that stay in the year of the first one count up by one.\<close>
lemma week_of_occurrence:
  assumes "getFullYear tz (addDays a (7 * int j)) = getFullYear tz a"
  shows "getWeekNumber tz (addDays a (7 * int j)) = getWeekNumber tz a + int j"
  using getWeekNumber_same_year [OF assms] by (simp add: calendarWeek_addDays)

lemma weeks_of_occurrences:
  assumes "\<forall>c\<in>set (weeklyOccurrences a k). getFullYear tz c = getFullYear tz a"
  shows "map (getWeekNumber tz) (weeklyOccurrences a k)
           = map (\<lambda>j. getWeekNumber tz a + int j) [0..<k]"
  unfolding weeklyOccurrences_def map_map
proof (rule map_cong [OF refl])
  fix j assume "j \<in> set [0..<k]"
  then have "addDays a (7 * int j) \<in> set (weeklyOccurrences a k)"
    by (simp add: weeklyOccurrences_def)
  with assms have "getFullYear tz (addDays a (7 * int j)) = getFullYear tz a" by blast
  then show "(getWeekNumber tz \<circ> (\<lambda>j. addDays a (7 * int j))) j = getWeekNumber tz a + int j"
    by (simp add: week_of_occurrence)
qed

lemma addDays_add: "addDays (addDays t x) y = addDays t (x + y)"
  by (simp add: addDays_def distrib_right)

lemma weeklyOccurrences_append:
  "weeklyOccurrences a (m + n)
     = weeklyOccurrences a m @ weeklyOccurrences (addDays a (7 * int m)) n"
proof -
  have "[0..<m + n] = [0..<m] @ [m..<m + n]"
    using upt_add_eq_append [of 0 m n] by simp
  moreover have "[m..<m + n] = map (\<lambda>j. j + m) [0..<n]"
    unfolding map_add_upt by (simp add: add.commute)
  then have "map (\<lambda>j. addDays a (7 * int j)) [m..<m + n]
      = map (\<lambda>j. addDays a (7 * int (j + m))) [0..<n]"
    by (simp only: map_map comp_def)
  moreover have "addDays a (7 * int (j + m)) = addDays (addDays a (7 * int m)) (7 * int j)"
    for j
    unfolding addDays_add by (simp add: add.commute)
  ultimately show ?thesis by (simp add: weeklyOccurrences_def)
qed

lemma sorted_weeklyOccurrences: "sorted (weeklyOccurrences a k)"
  by (simp add: weeklyOccurrences_def sorted_iff_nth_mono addDays_def msPerDay_def)

lemma weeklyOccurrences_Nil: "weeklyOccurrences a k = [] \<longleftrightarrow> k = 0"
  by (simp add: weeklyOccurrences_def)

text \<open>The longest-streak loop over week numbers that count up by one.\<close>
lemma longestWeekLoop_chain:
  "longestWeekLoop (map (\<lambda>j. w + 1 + int j) [0..<n] @ ys) mx cur (Some w)
     = longestWeekLoop ys (if n = 0 then mx else max mx (cur + n)) (cur + n)
         (Some (w + int n))"
proof (induction n arbitrary: w mx cur)
  case 0
  show ?case by simp
next
  case (Suc n)
  have "map (\<lambda>j. w + 1 + int j) [0..<Suc n]
          = (w + 1) # map (\<lambda>j. w + 1 + 1 + int j) [0..<n]"
    unfolding map_upt_Suc by (simp add: algebra_simps)
  then have "longestWeekLoop (map (\<lambda>j. w + 1 + int j) [0..<Suc n] @ ys) mx cur (Some w)
      = longestWeekLoop (map (\<lambda>j. w + 1 + 1 + int j) [0..<n] @ ys)
          (max mx (cur + 1)) (cur + 1) (Some (w + 1))"
    by (simp add: Let_def)
  also have "\<dots> = longestWeekLoop ys
      (if n = 0 then max mx (cur + 1) else max (max mx (cur + 1)) (cur + 1 + n))
      (cur + 1 + n) (Some (w + 1 + int n))"
    by (rule Suc.IH)
  finally show ?case by (simp add: algebra_simps max_def)
qed

lemma longestWeekLoop_first:
  "longestWeekLoop (map (\<lambda>j. w + int j) [0..<Suc m] @ ys) 0 0 None
     = longestWeekLoop ys (Suc m) (Suc m) (Some (w + int m))"
proof -
  have "map (\<lambda>j. w + int j) [0..<Suc m] = w # map (\<lambda>j. w + 1 + int j) [0..<m]"
    unfolding map_upt_Suc by (simp add: algebra_simps)
  then have "longestWeekLoop (map (\<lambda>j. w + int j) [0..<Suc m] @ ys) 0 0 None
      = longestWeekLoop (map (\<lambda>j. w + 1 + int j) [0..<m] @ ys) 1 1 (Some w)"
    by (simp add: Let_def)
  also have "\<dots> = longestWeekLoop ys (if m = 0 then 1 else max 1 (1 + m)) (1 + m)
      (Some (w + int m))"
    by (rule longestWeekLoop_chain)
  finally show ?thesis by (simp add: max_def)
qed

lemma longestWeekLoop_reset:
  assumes "w \<noteq> l + 1"
  shows "longestWeekLoop (map (\<lambda>j. w + int j) [0..<Suc n] @ ys) mx cur (Some l)
     = longestWeekLoop ys (max mx (Suc n)) (Suc n) (Some (w + int n))"
proof -
  have "map (\<lambda>j. w + int j) [0..<Suc n] = w # map (\<lambda>j. w + 1 + int j) [0..<n]"
    unfolding map_upt_Suc by (simp add: algebra_simps)
  then have "longestWeekLoop (map (\<lambda>j. w + int j) [0..<Suc n] @ ys) mx cur (Some l)
      = longestWeekLoop (map (\<lambda>j. w + 1 + int j) [0..<n] @ ys) (max mx 1) 1 (Some w)"
    using assms by (simp add: Let_def)
  also have "\<dots> = longestWeekLoop ys
      (if n = 0 then max mx 1 else max (max mx 1) (1 + n)) (1 + n) (Some (w + int n))"
    by (rule longestWeekLoop_chain)
  finally show ?thesis by (simp add: max_def)
qed

lemma longestWeekLoop_two_runs:
  assumes "w' \<noteq> w + int m + 1"
  shows "longestWeekLoop (map (\<lambda>j. w + int j) [0..<Suc m] @ map (\<lambda>j. w' + int j) [0..<Suc n])
           0 0 None = max (Suc m) (Suc n)"
proof -
  have "longestWeekLoop (map (\<lambda>j. w + int j) [0..<Suc m] @ map (\<lambda>j. w' + int j) [0..<Suc n])
           0 0 None
      = longestWeekLoop (map (\<lambda>j. w' + int j) [0..<Suc n] @ []) (Suc m) (Suc m)
          (Some (w + int m))"
    unfolding longestWeekLoop_first by simp
  also have "\<dots> = longestWeekLoop [] (max (Suc m) (Suc n)) (Suc n) (Some (w' + int n))"
    by (rule longestWeekLoop_reset [OF assms])
  finally show ?thesis by simp
qed

text \<open>
  A run of weekly occurrences, the first \<open>Suc m\<close> of them in the year of \<open>a\<close> and the
  next \<open>Suc n\<close> in a later year: the week numbers count up in each part and start
  again between the two.
\<close>
lemma straddling_weeks:
  assumes y: "100 \<le> getFullYear tz a"
    and first: "\<forall>c\<in>set (weeklyOccurrences a (Suc m)). getFullYear tz c = getFullYear tz a"
    and second: "\<forall>c\<in>set (weeklyOccurrences (addDays a (7 * int (Suc m))) (Suc n)).
                   getFullYear tz c = getFullYear tz (addDays a (7 * int (Suc m)))"
    and later: "getFullYear tz a < getFullYear tz (addDays a (7 * int (Suc m)))"
  shows "map (getWeekNumber tz) (weeklyOccurrences a (Suc m + Suc n))
           = map (\<lambda>j. getWeekNumber tz a + int j) [0..<Suc m]
             @ map (\<lambda>j. getWeekNumber tz (addDays a (7 * int (Suc m))) + int j) [0..<Suc n]"
    and "getWeekNumber tz (addDays a (7 * int (Suc m))) \<le> 3"
    and "51 \<le> getWeekNumber tz a + int m"
proof -
  let ?b = "addDays a (7 * int m)" and ?c = "addDays a (7 * int (Suc m))"
  show "map (getWeekNumber tz) (weeklyOccurrences a (Suc m + Suc n))
           = map (\<lambda>j. getWeekNumber tz a + int j) [0..<Suc m]
             @ map (\<lambda>j. getWeekNumber tz ?c + int j) [0..<Suc n]"
    unfolding weeklyOccurrences_append map_append
      weeks_of_occurrences [OF first] weeks_of_occurrences [OF second] ..
  have "?b \<in> set (weeklyOccurrences a (Suc m))"
    unfolding weeklyOccurrences_def by (simp only: set_map set_upt) (rule imageI, simp)
  with first have yb: "getFullYear tz ?b = getFullYear tz a" by blast
  have d: "localDay tz ?c - localDay tz ?b \<le> 13" by (simp add: localDay_addDays)
  from y later have 1: "100 \<le> getFullYear tz ?b" and 2: "getFullYear tz ?b < getFullYear tz ?c"
    unfolding yb by simp_all
  from year_boundary_weeks [OF 1 2 d]
  show "getWeekNumber tz ?c \<le> 3" and "51 \<le> getWeekNumber tz a + int m"
    unfolding week_of_occurrence [OF yb] by simp_all
qed

lemma filter_eligible:
  "filter (\<lambda>c. Some (getDay tz c) = Some target) cs = filter (\<lambda>c. getDay tz c = target) cs"
  by simp

lemma longest_specific_straddle:
  assumes y: "100 \<le> getFullYear tz a"
    and first: "\<forall>c\<in>set (weeklyOccurrences a (Suc m)). getFullYear tz c = getFullYear tz a"
    and second: "\<forall>c\<in>set (weeklyOccurrences (addDays a (7 * int (Suc m))) (Suc n)).
                   getFullYear tz c = getFullYear tz (addDays a (7 * int (Suc m)))"
    and later: "getFullYear tz a < getFullYear tz (addDays a (7 * int (Suc m)))"
    and target: "dayMap dayName = Some (getDay tz a)"
    and E: "mset (filter (\<lambda>c. getDay tz c = getDay tz a) cs)
              = mset (weeklyOccurrences a (Suc m + Suc n))"
  shows "calculateLongestStreak tz cs dayName = max (Suc m) (Suc n)"
proof -
  let ?occ = "weeklyOccurrences a (Suc m + Suc n)"
  note f = dayMap_Some [OF target]
  note w = straddling_weeks [OF y first second later]
  have one: "sort (filter (\<lambda>c. getDay tz c = getDay tz a) cs) = ?occ"
    using sort_mset_cong [OF E] sorted_weeklyOccurrences [of a "Suc m + Suc n"]
    by (simp add: sort_key_id_if_sorted)
  have "filter (\<lambda>c. getDay tz c = getDay tz a) (sort cs)
          = sort (filter (\<lambda>c. getDay tz c = getDay tz a) cs)"
    by (rule filter_sort)
  then have dc: "sort (filter (\<lambda>c. Some (getDay tz c) = Some (getDay tz a)) (sort cs)) = ?occ"
    unfolding filter_eligible one using sorted_weeklyOccurrences [of a "Suc m + Suc n"]
    by (simp add: sort_key_id_if_sorted)
  have occ: "?occ \<noteq> []" by (simp add: weeklyOccurrences_Nil)
  have cs: "cs \<noteq> []"
  proof
    assume "cs = []"
    with E have "mset ?occ = {#}" by simp
    with occ show False by simp
  qed
  have ne: "getWeekNumber tz (addDays a (7 * int (Suc m))) \<noteq> getWeekNumber tz a + int m + 1"
    using w(2,3) by simp
  have "calculateLongestSpecificDayStreak tz (sort cs) dayName
          = longestWeekLoop (map (getWeekNumber tz) ?occ) 0 0 None"
    unfolding calculateLongestSpecificDayStreak_def Let_def target dc using occ by simp
  also have "\<dots> = max (Suc m) (Suc n)"
    unfolding w(1) by (rule longestWeekLoop_two_runs [OF ne])
  finally show ?thesis using cs f(3,4) by (simp add: calculateLongestStreak_def)
qed

lemma sorted_count_up: "sorted (map (\<lambda>j. w + int j) [0..<k])"
  by (simp add: sorted_iff_nth_mono)

lemma distinct_count_up: "distinct (map (\<lambda>j. w + int j) [0..<k])"
  by (simp add: distinct_map inj_on_def)

lemma set_count_up: "x \<in> set (map (\<lambda>j. w + int j) [0..<k]) \<Longrightarrow> w \<le> x \<and> x < w + int k"
  by auto

text \<open>
  The weekly longest streak puts the week numbers of both years into one sorted set; for
  at most 48 occurrences the two parts stay apart there.
\<close>
lemma longest_weekly_straddle:
  assumes y: "100 \<le> getFullYear tz a"
    and first: "\<forall>c\<in>set (weeklyOccurrences a (Suc m)). getFullYear tz c = getFullYear tz a"
    and second: "\<forall>c\<in>set (weeklyOccurrences (addDays a (7 * int (Suc m))) (Suc n)).
                   getFullYear tz c = getFullYear tz (addDays a (7 * int (Suc m)))"
    and later: "getFullYear tz a < getFullYear tz (addDays a (7 * int (Suc m)))"
    and few: "Suc m + Suc n \<le> 48"
    and E: "set cs = set (weeklyOccurrences a (Suc m + Suc n))"
  shows "calculateLongestStreak tz cs ''weekly'' = max (Suc m) (Suc n)"
proof -
  let ?occ = "weeklyOccurrences a (Suc m + Suc n)"
  let ?A = "map (\<lambda>j. getWeekNumber tz a + int j) [0..<Suc m]"
  let ?B = "map (\<lambda>j. getWeekNumber tz (addDays a (7 * int (Suc m))) + int j) [0..<Suc n]"
  let ?u = "sort (remdups (map (getWeekNumber tz) (sort cs)))"
  note w = straddling_weeks [OF y first second later]
  have occ: "?occ \<noteq> []" by (simp add: weeklyOccurrences_Nil)
  have cs: "cs \<noteq> []" using E occ by (metis set_empty)
  have apart: "x < y" if "x \<in> set ?B" "y \<in> set ?A" for x y
    using set_count_up [OF that(1)] set_count_up [OF that(2)] w(2,3) few by simp
  have "set ?u = getWeekNumber tz ` set ?occ" by (simp add: E)
  also have "\<dots> = set (?A @ ?B)" unfolding w(1) [symmetric] by simp
  finally have set: "set ?u = set (?B @ ?A)" by auto
  have srt: "sorted (?B @ ?A)"
    unfolding sorted_append using apart sorted_count_up by (meson less_imp_le)
  have dist: "distinct (?B @ ?A)"
    unfolding distinct_append using apart distinct_count_up
    by (metis disjoint_iff less_irrefl)
  have "sorted ?u" "distinct ?u" by simp_all
  from sorted_distinct_set_unique [OF this srt dist set] have u: "?u = ?B @ ?A" .
  have ne: "getWeekNumber tz a \<noteq> getWeekNumber tz (addDays a (7 * int (Suc m))) + int n + 1"
    using w(2,3) few by simp
  have "calculateLongestWeeklyStreak tz (sort cs)
          = longestWeekLoop ?u 0 0 None"
    using cs by (simp add: calculateLongestWeeklyStreak_def Let_def sort_Nil)
  also have "\<dots> = max (Suc n) (Suc m)"
    unfolding u by (rule longestWeekLoop_two_runs [OF ne])
  finally show ?thesis using cs by (simp add: calculateLongestStreak_def max.commute)
qed

subsection \<open>C1: current streak against longest streak\<close>

text \<open>
  C1 states that \<open>current_streak \<le> longest_streak\<close> for every input, also for a
  specific-weekday habit whose history spans a year boundary. The habit below is a Monday
  habit completed on Monday 2025-12-29 and on Monday 2026-01-05, read on 2026-01-05 by a
  server in UTC: the current streak walks the dates seven days apart and is 2, the longest
  streak compares week numbers (53, then 2) and is 1.
\<close>
theorem specific_day_current_exceeds_longest:
  "getHabitProgress 0
     \<lparr> habitsTable =
         [\<lparr> h_id = 1, h_name = ''Plan'', h_frequency = ''monday'',
            h_created_at = 1766966400000 \<rparr>],
       habitCompletionsTable =
         [\<lparr> c_id = 1, c_habit_id = 1, completed_date = 1766966400000,
            c_created_at = 1766966400000 \<rparr>,
          \<lparr> c_id = 2, c_habit_id = 1, completed_date = 1767571200000,
            c_created_at = 1767571200000 \<rparr>],
       nextCompletionId = 3 \<rparr>
     1 1767571200000 =
   Some (Some \<lparr> habit_id = 1, current_streak = 2, longest_streak = 1,
                last_completed_date = Some 1767571200000, total_completions = 2,
                completion_rate = 1 \<rparr>)"
  by code_simp

subsection \<open>C2: where the weekly and weekday current streaks start\<close>




subsection \<open>C3: a frequency outside the closed set\<close>

text \<open>
  C3 states that a frequency outside the nine known values makes the computation fail
  fast. The code has no such check: for the frequency \<open>yearly\<close> it returns an ordinary
  progress record.
\<close>
theorem unknown_frequency_counterexample:
  "getHabitProgress 0
     \<lparr> habitsTable =
         [\<lparr> h_id = 1, h_name = ''Review'', h_frequency = ''yearly'',
            h_created_at = 1791763200000 \<rparr>],
       habitCompletionsTable =
         [\<lparr> c_id = 1, c_habit_id = 1, completed_date = 1793577600000,
            c_created_at = 1793577600000 \<rparr>],
       nextCompletionId = 2 \<rparr>
     1 1793577600000 =
   Some (Some \<lparr> habit_id = 1, current_streak = 0, longest_streak = 0,
                last_completed_date = Some 1793577600000, total_completions = 1,
                completion_rate = 1 \<rparr>)"
  by code_simp

text \<open>
  C3 as amended: for a habit whose frequency is outside the closed set the computation
  returns an ordinary record, that of a weekday habit no day matches: both streaks are
  0, and the completion rate is 1 as soon as there is a completion.
\<close>
theorem unknown_frequency_defaults:
  assumes "filter (\<lambda>h. h_id h = i) (habitsTable d) = h # hs"
    and "h_frequency h \<notin> {''daily'', ''weekly'', ''sunday'', ''monday'', ''tuesday'',
           ''wednesday'', ''thursday'', ''friday'', ''saturday''}"
  shows "getHabitProgress tz d i now =
     Some (Some \<lparr> habit_id = i, current_streak = 0, longest_streak = 0,
                  last_completed_date =
                    (case selectCompletions d i of [] \<Rightarrow> None | c # _ \<Rightarrow> Some c),
                  total_completions = length (selectCompletions d i),
                  completion_rate = (if selectCompletions d i = [] then 0 else 1) \<rparr>)"
proof -
  from assms(2) have f: "dayMap (h_frequency h) = None" "h_frequency h \<noteq> ''daily''"
    "h_frequency h \<noteq> ''weekly''"
    by (simp_all add: dayMap_unknown)
  show ?thesis
    unfolding getHabitProgress_def assms(1) list.case progressOfCompletions_def Let_def
    by (simp add: unknown_current [OF f] unknown_longest [OF f] unknown_rate [OF f])
qed

theorem unknown_frequency_defaults_witness:
  "getHabitProgress 32400000
     \<lparr> habitsTable =
         [\<lparr> h_id = 7, h_name = ''Audit'', h_frequency = ''monthly'',
            h_created_at = 1791763200000 \<rparr>],
       habitCompletionsTable =
         [\<lparr> c_id = 1, c_habit_id = 7, completed_date = 1793577600000,
            c_created_at = 1793577600000 \<rparr>,
          \<lparr> c_id = 2, c_habit_id = 7, completed_date = 1791763200000,
            c_created_at = 1791763200000 \<rparr>],
       nextCompletionId = 3 \<rparr>
     7 1793577600000 =
   Some (Some \<lparr> habit_id = 7, current_streak = 0, longest_streak = 0,
                last_completed_date = Some 1793577600000, total_completions = 2,
                completion_rate = 1 \<rparr>)"
  using unknown_frequency_defaults
    [of 7 "\<lparr> habitsTable =
         [\<lparr> h_id = 7, h_name = ''Audit'', h_frequency = ''monthly'',
            h_created_at = 1791763200000 \<rparr>],
       habitCompletionsTable =
         [\<lparr> c_id = 1, c_habit_id = 7, completed_date = 1793577600000,
            c_created_at = 1793577600000 \<rparr>,
          \<lparr> c_id = 2, c_habit_id = 7, completed_date = 1791763200000,
            c_created_at = 1791763200000 \<rparr>],
       nextCompletionId = 3 \<rparr>"
      "\<lparr> h_id = 7, h_name = ''Audit'', h_frequency = ''monthly'',
            h_created_at = 1791763200000 \<rparr>" "[]" 32400000 1793577600000]
  by (simp add: selectCompletions_def)

subsection \<open>C4: the completion rate\<close>

text \<open>
  C4: for a non-empty completion list the rate is the raw number of completion records
  (same-day duplicates included) divided by the expected completions, capped at 1; the
  expected completions are at least 1, so the division is defined, and the rate lies
  between 0 and 1 for every input.
\<close>
theorem completion_rate_formula:
  "(completions \<noteq> [] \<longrightarrow>
      calculateCompletionRate tz completions frequency createdAt now =
        min (real (length completions)
               / real_of_int (expectedCompletions tz frequency createdAt now)) 1) \<and>
   1 \<le> expectedCompletions tz frequency createdAt now \<and>
   0 \<le> calculateCompletionRate tz completions frequency createdAt now \<and>
   calculateCompletionRate tz completions frequency createdAt now \<le> 1"
proof -
  have pos: "0 < real_of_int (expectedCompletions tz frequency createdAt now)"
    using expectedCompletions_ge_1 [of tz frequency createdAt now] by simp
  then have "0 \<le> real (length completions)
               / real_of_int (expectedCompletions tz frequency createdAt now)"
    by simp
  then show ?thesis
    using expectedCompletions_ge_1 [of tz frequency createdAt now]
    by (simp add: calculateCompletionRate_def)
qed

text \<open>
  Two records on the same day for a daily habit created four days before: the rate is
  2 / 5, duplicates counted.
\<close>
theorem completion_rate_formula_witness:
  "[1793577600000, 1793577600000] \<noteq> ([] :: timestamp list) \<and>
   expectedCompletions 0 ''daily'' 1793232000000 1793577600000 = 5 \<and>
   calculateCompletionRate 0 [1793577600000, 1793577600000] ''daily''
     1793232000000 1793577600000 = 2 / 5"
proof -
  have e: "expectedCompletions 0 ''daily'' 1793232000000 1793577600000 = 5"
    by (simp add: expectedCompletions_def msPerDay_def)
  show ?thesis
    using completion_rate_formula [of "[1793577600000, 1793577600000]" 0
        "''daily''" 1793232000000 1793577600000]
    by (simp add: e)
qed

subsection \<open>C5: the one-day grace of the daily current streak\<close>

text \<open>
  C5 states the grace rule of the daily current streak: a most recent completion today or
  yesterday gives the length of the run of days ending there, an older one gives 0. The
  loop of \<^verbatim>\<open>calculateDailyStreak\<close> starts at the local midnight of today and compares
  UTC dates. On a server nine hours east of UTC, read on 2026-11-02 at 10:00 local time
  (01:00 UTC):

  \<^item> a daily habit created on 2020-01-01 and completed at the time of the call (the
    repository's own test of an old habit, which expects a current streak of 1) has a
    current streak of 0, where the list endpoint returns 1 for the same completion and
    a server in UTC returns 1;

  \<^item> a completion two local days earlier, on 2026-10-31 at 10:00 local time, and none
    since, gives a current streak of 1, and the list endpoint returns 0.
\<close>
theorem daily_streak_compares_utc_dates:
  "getHabitProgress 32400000
     \<lparr> habitsTable =
         [\<lparr> h_id = 1, h_name = ''Ancient Habit'', h_frequency = ''daily'',
            h_created_at = 1577836800000 \<rparr>],
       habitCompletionsTable =
         [\<lparr> c_id = 1, c_habit_id = 1, completed_date = 1793581200000,
            c_created_at = 1793581200000 \<rparr>],
       nextCompletionId = 2 \<rparr>
     1 1793581200000 =
   Some (Some \<lparr> habit_id = 1, current_streak = 0, longest_streak = 1,
                last_completed_date = Some 1793581200000, total_completions = 1,
                completion_rate = 1 / 2498 \<rparr>) \<and>
   listCurrentStreak 32400000 [1793581200000] 1793581200000 = 1 \<and>
   calculateCurrentStreak 0 [1793581200000] ''daily'' 1793581200000 = Some 1 \<and>
   calculateCurrentStreak 32400000 [1793408400000] ''daily'' 1793581200000 = Some 1 \<and>
   listCurrentStreak 32400000 [1793408400000] 1793581200000 = 0 \<and>
   localDay 32400000 1793408400000 = localDay 32400000 1793581200000 - 2"
  by code_simp

subsection \<open>C6: same-day duplicates\<close>

text \<open>
  C6 states that several completions on one calendar day count as one period for the
  streaks and each for \<open>total_completions\<close>, with three completions today of a daily
  habit giving \<open>total_completions = 3\<close>, \<open>current_streak = 1\<close>, \<open>longest_streak = 1\<close>
  (the repository's test of multiple completions on the same day expects these values).

  \<^item> On a server in UTC the daily path collapses them: the three rows dated at the time
    of the call give 3, 1, 1, and completions on 2026-10-31, twice on 2026-11-01 and on
    2026-11-02 give 4, 3, 3. On a server nine hours east of UTC, read on 2026-11-02 at
    10:00 local time, the three rows dated at the time of the call give a current streak
    of 0.

  \<^item> The weekday paths do not collapse completions of one day. A Monday habit completed
    on Monday 2026-10-26 and twice on Monday 2026-11-02, read that day at noon in UTC, has
    a current streak of 1, where the two Mondays are a run of 2; completed on the Mondays
    2026-10-19, 2026-10-26 (twice) and 2026-11-02 it has a longest streak of 2, where the
    three Mondays are a run of 3.
\<close>
theorem same_day_duplicates_not_always_collapsed:
  "getHabitProgress 0
     \<lparr> habitsTable =
         [\<lparr> h_id = 1, h_name = ''Meditation'', h_frequency = ''daily'',
            h_created_at = 1793581200000 \<rparr>],
       habitCompletionsTable =
         [\<lparr> c_id = 1, c_habit_id = 1, completed_date = 1793581200000,
            c_created_at = 1793581200000 \<rparr>,
          \<lparr> c_id = 2, c_habit_id = 1, completed_date = 1793581200000,
            c_created_at = 1793581200000 \<rparr>,
          \<lparr> c_id = 3, c_habit_id = 1, completed_date = 1793581200000,
            c_created_at = 1793581200000 \<rparr>],
       nextCompletionId = 4 \<rparr>
     1 1793581200000 =
   Some (Some \<lparr> habit_id = 1, current_streak = 1, longest_streak = 1,
                last_completed_date = Some 1793581200000, total_completions = 3,
                completion_rate = 1 \<rparr>) \<and>
   getHabitProgress 0
     \<lparr> habitsTable =
         [\<lparr> h_id = 1, h_name = ''Meditation'', h_frequency = ''daily'',
            h_created_at = 1793404800000 \<rparr>],
       habitCompletionsTable =
         [\<lparr> c_id = 1, c_habit_id = 1, completed_date = 1793404800000,
            c_created_at = 1793404800000 \<rparr>,
          \<lparr> c_id = 2, c_habit_id = 1, completed_date = 1793491200000,
            c_created_at = 1793491200000 \<rparr>,
          \<lparr> c_id = 3, c_habit_id = 1, completed_date = 1793520000000,
            c_created_at = 1793520000000 \<rparr>,
          \<lparr> c_id = 4, c_habit_id = 1, completed_date = 1793577600000,
            c_created_at = 1793577600000 \<rparr>],
       nextCompletionId = 5 \<rparr>
     1 1793620800000 =
   Some (Some \<lparr> habit_id = 1, current_streak = 3, longest_streak = 3,
                last_completed_date = Some 1793577600000, total_completions = 4,
                completion_rate = 1 \<rparr>) \<and>
   getHabitProgress 32400000
     \<lparr> habitsTable =
         [\<lparr> h_id = 1, h_name = ''Meditation'', h_frequency = ''daily'',
            h_created_at = 1793581200000 \<rparr>],
       habitCompletionsTable =
         [\<lparr> c_id = 1, c_habit_id = 1, completed_date = 1793581200000,
            c_created_at = 1793581200000 \<rparr>,
          \<lparr> c_id = 2, c_habit_id = 1, completed_date = 1793581200000,
            c_created_at = 1793581200000 \<rparr>,
          \<lparr> c_id = 3, c_habit_id = 1, completed_date = 1793581200000,
            c_created_at = 1793581200000 \<rparr>],
       nextCompletionId = 4 \<rparr>
     1 1793581200000 =
   Some (Some \<lparr> habit_id = 1, current_streak = 0, longest_streak = 1,
                last_completed_date = Some 1793581200000, total_completions = 3,
                completion_rate = 1 \<rparr>) \<and>
   getHabitProgress 0
     \<lparr> habitsTable =
         [\<lparr> h_id = 2, h_name = ''Monday Meetings'', h_frequency = ''monday'',
            h_created_at = 1792972800000 \<rparr>],
       habitCompletionsTable =
         [\<lparr> c_id = 1, c_habit_id = 2, completed_date = 1792972800000,
            c_created_at = 1792972800000 \<rparr>,
          \<lparr> c_id = 2, c_habit_id = 2, completed_date = 1793577600000,
            c_created_at = 1793577600000 \<rparr>,
          \<lparr> c_id = 3, c_habit_id = 2, completed_date = 1793606400000,
            c_created_at = 1793606400000 \<rparr>],
       nextCompletionId = 4 \<rparr>
     2 1793620800000 =
   Some (Some \<lparr> habit_id = 2, current_streak = 1, longest_streak = 2,
                last_completed_date = Some 1793606400000, total_completions = 3,
                completion_rate = 1 \<rparr>) \<and>
   calculateLongestStreak 0
     [1792368000000, 1792972800000, 1793001600000, 1793577600000] ''monday'' = 2 \<and>
   map (localDay 0) [1792368000000, 1792972800000, 1793001600000, 1793577600000]
     = [20745, 20752, 20752, 20759]"
  by code_simp

subsection \<open>C7: the two implementations\<close>




subsection \<open>C8: the order of the completions\<close>

text \<open>
  C8 states that every permutation of the completions list gives the identical record,
  \<open>last_completed_date\<close> included. The calculation takes \<open>last_completed_date\<close> from the
  first element of the list it is given: for the completions of 2026-11-01 and 2026-11-02
  it is 2026-11-01 when that one comes first, and 2026-11-02 the other way round.
\<close>
theorem counterexample_order_changes_last_completed_date:
  "map_option last_completed_date
     (progressOfCompletions 0 1
        \<lparr> h_id = 1, h_name = ''Run'', h_frequency = ''daily'', h_created_at = 1793491200000 \<rparr>
        [1793491200000, 1793577600000] 1793577600000) = Some (Some 1793491200000) \<and>
   map_option last_completed_date
     (progressOfCompletions 0 1
        \<lparr> h_id = 1, h_name = ''Run'', h_frequency = ''daily'', h_created_at = 1793491200000 \<rparr>
        [1793577600000, 1793491200000] 1793577600000) = Some (Some 1793577600000)"
  by code_simp

text \<open>
  C8 as amended: the calculation returns for every list of completions, and for every
  permutation of the list it returns the same \<open>habit_id\<close>, \<open>current_streak\<close>,
  \<open>longest_streak\<close>, \<open>total_completions\<close> (the length of the list) and
  \<open>completion_rate\<close>; \<open>last_completed_date\<close> is the first element of the list as given.
  The handler gives the calculation the rows of the habit ordered by date, most recent
  first: for a habit that exists it returns a record whose \<open>total_completions\<close> is the
  number of the habit's rows and whose \<open>last_completed_date\<close> is the most recent
  \<open>completed_date\<close> among them (absent when there is none), and the record is the same
  for every storage that holds the same habits and the same rows in another order.
\<close>
theorem progress_order_independent_but_last_date:
  "(mset completions' = mset completions \<longrightarrow>
      (\<exists>p p'. progressOfCompletions tz i h completions now = Some p \<and>
            progressOfCompletions tz i h completions' now = Some p' \<and>
            habit_id p' = habit_id p \<and>
            current_streak p' = current_streak p \<and>
            longest_streak p' = longest_streak p \<and>
            total_completions p' = total_completions p \<and>
            completion_rate p' = completion_rate p \<and>
            total_completions p = length completions \<and>
            last_completed_date p = (case completions of [] \<Rightarrow> None | c # _ \<Rightarrow> Some c) \<and>
            last_completed_date p' = (case completions' of [] \<Rightarrow> None | c # _ \<Rightarrow> Some c))) \<and>
   (filter (\<lambda>h. h_id h = i) (habitsTable d) \<noteq> [] \<and>
    habitsTable d' = habitsTable d \<and>
    mset (habitCompletionsTable d') = mset (habitCompletionsTable d) \<longrightarrow>
         (\<exists>p. getHabitProgress tz d i now = Some (Some p) \<and>
            getHabitProgress tz d' i now = Some (Some p) \<and>
            total_completions p
              = length (filter (\<lambda>c. c_habit_id c = i) (habitCompletionsTable d)) \<and>
            last_completed_date p
              = (if filter (\<lambda>c. c_habit_id c = i) (habitCompletionsTable d) = [] then None
                 else Some (Max (completed_date `
                        set (filter (\<lambda>c. c_habit_id c = i) (habitCompletionsTable d)))))))"
proof (intro conjI impI)
  assume perm: "mset completions' = mset completions"
  obtain p where p: "progressOfCompletions tz i h completions now = Some p"
    using progressOfCompletions_returns by blast
  obtain p' where p': "progressOfCompletions tz i h completions' now = Some p'"
    using progressOfCompletions_returns by blast
  note f = progressOfCompletions_fields [OF p]
  note f' = progressOfCompletions_fields [OF p']
  have e: "(completions' = []) = (completions = [])"
    using perm by (metis mset_zero_iff)
  have "Some (current_streak p') = Some (current_streak p)"
    unfolding f(2) f'(2) e calculateCurrentStreak_perm [OF perm] ..
  then have "current_streak p' = current_streak p" by simp
  moreover have "longest_streak p' = longest_streak p"
    unfolding f(3) f'(3) by (rule calculateLongestStreak_perm [OF perm])
  moreover have "total_completions p' = total_completions p"
    unfolding f(5) f'(5) using perm by (rule mset_eq_length)
  moreover have "completion_rate p' = completion_rate p"
    unfolding f(6) f'(6) by (rule calculateCompletionRate_perm [OF perm])
  moreover have "habit_id p' = habit_id p" unfolding f(1) f'(1) ..
  ultimately show "\<exists>p p'. progressOfCompletions tz i h completions now = Some p \<and>
            progressOfCompletions tz i h completions' now = Some p' \<and>
            habit_id p' = habit_id p \<and>
            current_streak p' = current_streak p \<and>
            longest_streak p' = longest_streak p \<and>
            total_completions p' = total_completions p \<and>
            completion_rate p' = completion_rate p \<and>
            total_completions p = length completions \<and>
            last_completed_date p = (case completions of [] \<Rightarrow> None | c # _ \<Rightarrow> Some c) \<and>
            last_completed_date p' = (case completions' of [] \<Rightarrow> None | c # _ \<Rightarrow> Some c)"
    using p p' f(4,5) f'(4) by blast
next
  let ?rows = "filter (\<lambda>c. c_habit_id c = i) (habitCompletionsTable d)"
  assume "filter (\<lambda>h. h_id h = i) (habitsTable d) \<noteq> [] \<and>
    habitsTable d' = habitsTable d \<and>
    mset (habitCompletionsTable d') = mset (habitCompletionsTable d)"
  then have ex: "filter (\<lambda>h. h_id h = i) (habitsTable d) \<noteq> []"
    and habits: "habitsTable d' = habitsTable d"
    and rows: "mset (habitCompletionsTable d') = mset (habitCompletionsTable d)"
    by blast+
  obtain habitData rest where h: "filter (\<lambda>h. h_id h = i) (habitsTable d) = habitData # rest"
    using ex by (cases "filter (\<lambda>h. h_id h = i) (habitsTable d)") simp_all
  obtain p where p: "progressOfCompletions tz i habitData (selectCompletions d i) now = Some p"
    using progressOfCompletions_returns by blast
  note f = progressOfCompletions_fields [OF p]
  have one: "getHabitProgress tz d i now = Some (Some p)"
    unfolding getHabitProgress_def h list.case p by simp
  have two: "getHabitProgress tz d' i now = Some (Some p)"
    unfolding getHabitProgress_def habits h list.case
      selectCompletions_perm [OF rows] p by simp
  have total: "total_completions p = length ?rows"
    unfolding f(5) by (rule length_selectCompletions)
  have last: "last_completed_date p
      = (if ?rows = [] then None else Some (Max (completed_date ` set ?rows)))"
  proof (cases "selectCompletions d i")
    case Nil
    then have "?rows = []" by (simp add: selectCompletions_Nil)
    with Nil show ?thesis unfolding f(4) by simp
  next
    case (Cons c cs)
    then have "?rows \<noteq> []" using selectCompletions_Nil [of d i] by simp
    moreover have "c = Max (completed_date ` set ?rows)"
      using selectCompletions_head [OF Cons] unfolding set_selectCompletions .
    ultimately show ?thesis unfolding f(4) Cons by simp
  qed
  from one two total last
  show "\<exists>p. getHabitProgress tz d i now = Some (Some p) \<and>
            getHabitProgress tz d' i now = Some (Some p) \<and>
            total_completions p = length ?rows \<and>
            last_completed_date p
              = (if ?rows = [] then None else Some (Max (completed_date ` set ?rows)))"
    by blast
qed

text \<open>
  Two completions of a Monday habit, on 2026-10-26 and 2026-11-02, in either order, read
  on 2026-11-02 by a server in UTC.
\<close>
theorem progress_order_independent_but_last_date_witness:
  "(\<exists>p p'. progressOfCompletions 0 1
        \<lparr> h_id = 1, h_name = ''Plan'', h_frequency = ''monday'',
          h_created_at = 1792972800000 \<rparr>
        [1792972800000, 1793577600000] 1793577600000 = Some p \<and>
      progressOfCompletions 0 1
        \<lparr> h_id = 1, h_name = ''Plan'', h_frequency = ''monday'',
          h_created_at = 1792972800000 \<rparr>
        [1793577600000, 1792972800000] 1793577600000 = Some p' \<and>
      current_streak p' = current_streak p \<and> longest_streak p' = longest_streak p \<and>
      total_completions p' = 2 \<and> total_completions p = 2 \<and>
      completion_rate p' = completion_rate p \<and>
      last_completed_date p = Some 1792972800000 \<and>
      last_completed_date p' = Some 1793577600000) \<and>
   (\<exists>p. getHabitProgress 0
        \<lparr> habitsTable =
            [\<lparr> h_id = 1, h_name = ''Plan'', h_frequency = ''monday'',
               h_created_at = 1792972800000 \<rparr>],
          habitCompletionsTable =
            [\<lparr> c_id = 1, c_habit_id = 1, completed_date = 1792972800000,
               c_created_at = 1792972800000 \<rparr>,
             \<lparr> c_id = 2, c_habit_id = 1, completed_date = 1793577600000,
               c_created_at = 1793577600000 \<rparr>],
          nextCompletionId = 3 \<rparr> 1 1793577600000 = Some (Some p) \<and>
      getHabitProgress 0
        \<lparr> habitsTable =
            [\<lparr> h_id = 1, h_name = ''Plan'', h_frequency = ''monday'',
               h_created_at = 1792972800000 \<rparr>],
          habitCompletionsTable =
            [\<lparr> c_id = 2, c_habit_id = 1, completed_date = 1793577600000,
               c_created_at = 1793577600000 \<rparr>,
             \<lparr> c_id = 1, c_habit_id = 1, completed_date = 1792972800000,
               c_created_at = 1792972800000 \<rparr>],
          nextCompletionId = 3 \<rparr> 1 1793577600000 = Some (Some p) \<and>
      total_completions p = 2 \<and> last_completed_date p = Some 1793577600000)"
proof -
  let ?h = "\<lparr> h_id = 1, h_name = ''Plan'', h_frequency = ''monday'',
              h_created_at = 1792972800000 \<rparr>"
  let ?ra = "\<lparr> c_id = 1, c_habit_id = 1, completed_date = 1792972800000,
               c_created_at = 1792972800000 \<rparr>"
  let ?rb = "\<lparr> c_id = 2, c_habit_id = 1, completed_date = 1793577600000,
               c_created_at = 1793577600000 \<rparr>"
  let ?d = "\<lparr> habitsTable = [?h], habitCompletionsTable = [?ra, ?rb],
              nextCompletionId = 3 \<rparr>"
  let ?d' = "\<lparr> habitsTable = [?h], habitCompletionsTable = [?rb, ?ra],
               nextCompletionId = 3 \<rparr>"
  let ?cs = "[1792972800000, 1793577600000] :: timestamp list"
  let ?cs' = "[1793577600000, 1792972800000] :: timestamp list"
  have ha: "mset ?cs' = mset ?cs" by (simp add: add_mset_commute)
  have hb: "habitsTable ?d' = habitsTable ?d" by simp
  have hc: "mset (habitCompletionsTable ?d') = mset (habitCompletionsTable ?d)"
    by (simp add: add_mset_commute)
  have hd: "filter (\<lambda>h. h_id h = 1) (habitsTable ?d) \<noteq> []" by simp
  have rows: "filter (\<lambda>c. c_habit_id c = 1) (habitCompletionsTable ?d) = [?ra, ?rb]"
    by simp
  have hyp: "filter (\<lambda>h. h_id h = 1) (habitsTable ?d) \<noteq> [] \<and>
      habitsTable ?d' = habitsTable ?d \<and>
      mset (habitCompletionsTable ?d') = mset (habitCompletionsTable ?d)"
    using hb hc hd by blast
  note t = progress_order_independent_but_last_date
    [where tz = 0 and now = 1793577600000 and h = ?h and i = 1 and d = ?d and d' = ?d'
       and completions = ?cs and completions' = ?cs']
  from t [THEN conjunct1, THEN mp, OF ha] have one: "\<exists>p p'.
      progressOfCompletions 0 1 ?h ?cs 1793577600000 = Some p \<and>
      progressOfCompletions 0 1 ?h ?cs' 1793577600000 = Some p' \<and>
      current_streak p' = current_streak p \<and> longest_streak p' = longest_streak p \<and>
      total_completions p' = 2 \<and> total_completions p = 2 \<and>
      completion_rate p' = completion_rate p \<and>
      last_completed_date p = Some 1792972800000 \<and>
      last_completed_date p' = Some 1793577600000"
    by (elim exE conjE, intro exI conjI) simp_all
  from t [THEN conjunct2, THEN mp, OF hyp] have two: "\<exists>p.
      getHabitProgress 0 ?d 1 1793577600000 = Some (Some p) \<and>
      getHabitProgress 0 ?d' 1 1793577600000 = Some (Some p) \<and>
      total_completions p = 2 \<and> last_completed_date p = Some 1793577600000"
    unfolding rows by (elim exE conjE, intro exI conjI) simp_all
  from one two show ?thesis by (rule conjI)
qed

subsection \<open>C9: the write path rejects a second completion on the same day\<close>

text \<open>
  C9: \<open>markHabitComplete\<close> signals an error exactly when the habit does not exist or a
  completion of that habit already falls on the calendar day, in the server's zone, of the requested date (the
  given date, or now when none is given); on an error the storage is unchanged; otherwise
  exactly one row, with the requested date, is appended.
\<close>
theorem markHabitComplete_rejects_duplicates:
  fixes tz :: int and d :: db and input :: markHabitCompleteInput and now :: timestamp
  defines "requested \<equiv> (case in_completed_date input of Some t \<Rightarrow> t | None \<Rightarrow> now)"
  defines "rejected \<equiv>
     (\<not> list_ex (\<lambda>h. h_id h = in_habit_id input) (habitsTable d) \<or>
      list_ex (\<lambda>c. c_habit_id c = in_habit_id input \<and>
                    toDateString tz (completed_date c) = toDateString tz requested)
        (habitCompletionsTable d))"
  shows "((\<exists>e. fst (markHabitComplete tz d input now) = Inl e) \<longleftrightarrow> rejected) \<and>
    (rejected \<longrightarrow> snd (markHabitComplete tz d input now) = d) \<and>
    (\<not> rejected \<longrightarrow>
       (\<exists>row. fst (markHabitComplete tz d input now) = Inr row \<and>
              completed_date row = requested \<and>
              c_habit_id row = in_habit_id input \<and>
              habitCompletionsTable (snd (markHabitComplete tz d input now)) =
                habitCompletionsTable d @ [row] \<and>
              habitsTable (snd (markHabitComplete tz d input now)) = habitsTable d))"
  unfolding rejected_def requested_def
  by (simp add: markHabitComplete_def Let_def find_filter_Some filter_Nil_list_ex)

theorem markHabitComplete_rejects_duplicates_witness:
  "(\<exists>e. fst (markHabitComplete 0
      \<lparr> habitsTable = [\<lparr> h_id = 1, h_name = ''Run'', h_frequency = ''daily'',
                          h_created_at = 1705276800000 \<rparr>],
        habitCompletionsTable =
          [\<lparr> c_id = 1, c_habit_id = 1, completed_date = 1705314600000,
             c_created_at = 1705314600000 \<rparr>],
        nextCompletionId = 2 \<rparr>
      \<lparr> in_habit_id = 1, in_completed_date = Some 1705348800000 \<rparr> 1705401000000)
     = Inl e) \<and>
   snd (markHabitComplete 0
      \<lparr> habitsTable = [\<lparr> h_id = 1, h_name = ''Run'', h_frequency = ''daily'',
                          h_created_at = 1705276800000 \<rparr>],
        habitCompletionsTable =
          [\<lparr> c_id = 1, c_habit_id = 1, completed_date = 1705314600000,
             c_created_at = 1705314600000 \<rparr>],
        nextCompletionId = 2 \<rparr>
      \<lparr> in_habit_id = 1, in_completed_date = Some 1705348800000 \<rparr> 1705401000000)
     = \<lparr> habitsTable = [\<lparr> h_id = 1, h_name = ''Run'', h_frequency = ''daily'',
                          h_created_at = 1705276800000 \<rparr>],
        habitCompletionsTable =
          [\<lparr> c_id = 1, c_habit_id = 1, completed_date = 1705314600000,
             c_created_at = 1705314600000 \<rparr>],
        nextCompletionId = 2 \<rparr> \<and>
   (\<exists>row. fst (markHabitComplete 0
      \<lparr> habitsTable = [\<lparr> h_id = 1, h_name = ''Run'', h_frequency = ''daily'',
                          h_created_at = 1705276800000 \<rparr>],
        habitCompletionsTable =
          [\<lparr> c_id = 1, c_habit_id = 1, completed_date = 1705314600000,
             c_created_at = 1705314600000 \<rparr>],
        nextCompletionId = 2 \<rparr>
      \<lparr> in_habit_id = 1, in_completed_date = None \<rparr> 1705401000000) = Inr row \<and>
      completed_date row = 1705401000000 \<and>
      habitCompletionsTable (snd (markHabitComplete 0
      \<lparr> habitsTable = [\<lparr> h_id = 1, h_name = ''Run'', h_frequency = ''daily'',
                          h_created_at = 1705276800000 \<rparr>],
        habitCompletionsTable =
          [\<lparr> c_id = 1, c_habit_id = 1, completed_date = 1705314600000,
             c_created_at = 1705314600000 \<rparr>],
        nextCompletionId = 2 \<rparr>
      \<lparr> in_habit_id = 1, in_completed_date = None \<rparr> 1705401000000))
     = [\<lparr> c_id = 1, c_habit_id = 1, completed_date = 1705314600000,
             c_created_at = 1705314600000 \<rparr>, row])"
  using markHabitComplete_rejects_duplicates
    [where tz = 0 and input = "\<lparr> in_habit_id = 1, in_completed_date = Some 1705348800000 \<rparr>"
       and now = 1705401000000 and d =
        "\<lparr> habitsTable = [\<lparr> h_id = 1, h_name = ''Run'', h_frequency = ''daily'',
                          h_created_at = 1705276800000 \<rparr>],
        habitCompletionsTable =
          [\<lparr> c_id = 1, c_habit_id = 1, completed_date = 1705314600000,
             c_created_at = 1705314600000 \<rparr>],
        nextCompletionId = 2 \<rparr>"]
    markHabitComplete_rejects_duplicates
    [where tz = 0 and input = "\<lparr> in_habit_id = 1, in_completed_date = None \<rparr>"
       and now = 1705401000000 and d =
        "\<lparr> habitsTable = [\<lparr> h_id = 1, h_name = ''Run'', h_frequency = ''daily'',
                          h_created_at = 1705276800000 \<rparr>],
        habitCompletionsTable =
          [\<lparr> c_id = 1, c_habit_id = 1, completed_date = 1705314600000,
             c_created_at = 1705314600000 \<rparr>],
        nextCompletionId = 2 \<rparr>"]
  by (auto simp: toDateString_def localDay_def LocalTime_def Day_def msPerDay_def)

subsection \<open>C10: week numbers restart every year\<close>

text \<open>
  C10 states that week numbers are counted from January 1 of the completion's own year,
  so that every weekly or weekday longest streak that straddles a year boundary resets at
  the new year. For a weekly habit the week numbers of all years go into one sorted set:
  completed in the weeks of 2025-01-13, 2025-12-29 and 2026-01-05 (week numbers 3, 53 and
  2), the habit has a longest streak of 2, made of week 2 of 2026 and week 3 of 2025,
  where a streak that resets at the new year is 1.
\<close>
theorem counterexample_weekly_streak_joins_years:
  "calculateLongestStreak 0 [1736726400000, 1766966400000, 1767571200000] ''weekly'' = 2 \<and>
   map (getWeekNumber 0) [1736726400000, 1766966400000, 1767571200000] = [3, 53, 2] \<and>
   map (getFullYear 0) [1736726400000, 1766966400000, 1767571200000] = [2025, 2025, 2026] \<and>
   map (calendarWeek 0) [1736726400000, 1766966400000, 1767571200000] = [2872, 2922, 2923]"
  by code_simp

text \<open>
  C10 as amended: week numbers are counted from January 1 of the completion's own year
  (in the server's zone, for years from 100 on).

  \<^item> Two completions at most 13 days apart (the same or successive calendar weeks) that
    lie in different years have week numbers of at most 3 (the later) and at least 51
    (the earlier): the later is never the successor of the earlier.

  \<^item> A run of completions seven days apart, the first \<open>m\<close> of them in one year and the
    next \<open>n\<close> in the following year, has the longest streak \<open>max m n\<close>, not \<open>m + n\<close>:
    for a habit of that weekday whatever else was completed on other weekdays, and for a
    weekly habit completed at these times only when the run has at most 48 completions.
\<close>
theorem week_numbers_restart_each_year:
  "(100 \<le> getFullYear tz a \<and> getFullYear tz a < getFullYear tz b \<and>
    localDay tz b - localDay tz a \<le> 13 \<longrightarrow>
      getWeekNumber tz b \<le> 3 \<and> 51 \<le> getWeekNumber tz a \<and>
      getWeekNumber tz b \<noteq> getWeekNumber tz a + 1) \<and>
   (100 \<le> getFullYear tz first \<and> 1 \<le> m \<and> 1 \<le> n \<and>
    (\<forall>c\<in>set (weeklyOccurrences first m). getFullYear tz c = getFullYear tz first) \<and>
    (\<forall>c\<in>set (weeklyOccurrences (addDays first (7 * int m)) n).
        getFullYear tz c = getFullYear tz first + 1) \<longrightarrow>
      (dayMap dayName = Some (getDay tz first) \<and>
       mset (filter (\<lambda>c. getDay tz c = getDay tz first) completions)
         = mset (weeklyOccurrences first (m + n)) \<longrightarrow>
         calculateLongestStreak tz completions dayName = max m n) \<and>
      (m + n \<le> 48 \<and> set completions = set (weeklyOccurrences first (m + n)) \<longrightarrow>
         calculateLongestStreak tz completions ''weekly'' = max m n))"
proof (intro conjI impI)
  assume "100 \<le> getFullYear tz a \<and> getFullYear tz a < getFullYear tz b \<and>
    localDay tz b - localDay tz a \<le> 13"
  then have "100 \<le> getFullYear tz a" "getFullYear tz a < getFullYear tz b"
    "localDay tz b - localDay tz a \<le> 13"
    by blast+
  note w = year_boundary_weeks [OF this]
  show "getWeekNumber tz b \<le> 3" by (rule w(1))
  show "51 \<le> getWeekNumber tz a" by (rule w(2))
  show "getWeekNumber tz b \<noteq> getWeekNumber tz a + 1" using w by simp
next
  assume a: "100 \<le> getFullYear tz first \<and> 1 \<le> m \<and> 1 \<le> n \<and>
    (\<forall>c\<in>set (weeklyOccurrences first m). getFullYear tz c = getFullYear tz first) \<and>
    (\<forall>c\<in>set (weeklyOccurrences (addDays first (7 * int m)) n).
        getFullYear tz c = getFullYear tz first + 1)"
  assume b: "dayMap dayName = Some (getDay tz first) \<and>
       mset (filter (\<lambda>c. getDay tz c = getDay tz first) completions)
         = mset (weeklyOccurrences first (m + n))"
  from a obtain m' n' where m: "m = Suc m'" and n: "n = Suc n'"
    by (cases m; cases n) simp_all
  have "addDays first (7 * int (Suc m')) \<in> set (weeklyOccurrences (addDays first (7 * int m)) n)"
    unfolding m n weeklyOccurrences_def
    by (simp only: set_map set_upt) (rule image_eqI [where x = 0], simp_all add: addDays_def)
  with a have yc: "getFullYear tz (addDays first (7 * int (Suc m'))) = getFullYear tz first + 1"
    by blast
  have "calculateLongestStreak tz completions dayName = max (Suc m') (Suc n')"
  proof (rule longest_specific_straddle)
    show "100 \<le> getFullYear tz first" using a by blast
    show "\<forall>c\<in>set (weeklyOccurrences first (Suc m')). getFullYear tz c = getFullYear tz first"
      using a unfolding m by blast
    show "\<forall>c\<in>set (weeklyOccurrences (addDays first (7 * int (Suc m'))) (Suc n')).
            getFullYear tz c = getFullYear tz (addDays first (7 * int (Suc m')))"
      unfolding yc using a unfolding m n by blast
    show "getFullYear tz first < getFullYear tz (addDays first (7 * int (Suc m')))"
      unfolding yc by simp
    show "dayMap dayName = Some (getDay tz first)" using b by blast
    show "mset (filter (\<lambda>c. getDay tz c = getDay tz first) completions)
            = mset (weeklyOccurrences first (Suc m' + Suc n'))"
      using b unfolding m n by blast
  qed
  then show "calculateLongestStreak tz completions dayName = max m n" unfolding m n .
next
  assume a: "100 \<le> getFullYear tz first \<and> 1 \<le> m \<and> 1 \<le> n \<and>
    (\<forall>c\<in>set (weeklyOccurrences first m). getFullYear tz c = getFullYear tz first) \<and>
    (\<forall>c\<in>set (weeklyOccurrences (addDays first (7 * int m)) n).
        getFullYear tz c = getFullYear tz first + 1)"
  assume b: "m + n \<le> 48 \<and> set completions = set (weeklyOccurrences first (m + n))"
  from a obtain m' n' where m: "m = Suc m'" and n: "n = Suc n'"
    by (cases m; cases n) simp_all
  have "addDays first (7 * int (Suc m')) \<in> set (weeklyOccurrences (addDays first (7 * int m)) n)"
    unfolding m n weeklyOccurrences_def
    by (simp only: set_map set_upt) (rule image_eqI [where x = 0], simp_all add: addDays_def)
  with a have yc: "getFullYear tz (addDays first (7 * int (Suc m'))) = getFullYear tz first + 1"
    by blast
  have "calculateLongestStreak tz completions ''weekly'' = max (Suc m') (Suc n')"
  proof (rule longest_weekly_straddle)
    show "100 \<le> getFullYear tz first" using a by blast
    show "\<forall>c\<in>set (weeklyOccurrences first (Suc m')). getFullYear tz c = getFullYear tz first"
      using a unfolding m by blast
    show "\<forall>c\<in>set (weeklyOccurrences (addDays first (7 * int (Suc m'))) (Suc n')).
            getFullYear tz c = getFullYear tz (addDays first (7 * int (Suc m')))"
      unfolding yc using a unfolding m n by blast
    show "getFullYear tz first < getFullYear tz (addDays first (7 * int (Suc m')))"
      unfolding yc by simp
    show "Suc m' + Suc n' \<le> 48" using b unfolding m n by blast
    show "set completions = set (weeklyOccurrences first (Suc m' + Suc n'))"
      using b unfolding m n by blast
  qed
  then show "calculateLongestStreak tz completions ''weekly'' = max m n" unfolding m n .
qed

text \<open>
  A server in UTC; Mondays from 2025-12-22 to 2026-01-19, two in 2025 and three in 2026,
  and for the Monday habit a completion on Wednesday 2025-12-31 as well: the longest
  streak of the five weeks is 3.
\<close>
theorem week_numbers_restart_each_year_witness:
  "getWeekNumber 0 1767571200000 \<le> 3 \<and> 51 \<le> getWeekNumber 0 1766966400000 \<and>
   getWeekNumber 0 1767571200000 \<noteq> getWeekNumber 0 1766966400000 + 1 \<and>
   calculateLongestStreak 0
     [1768780800000, 1766361600000, 1767139200000, 1766966400000, 1767571200000,
      1768176000000] ''monday'' = 3 \<and>
   calculateLongestStreak 0
     [1768780800000, 1766361600000, 1766966400000, 1767571200000, 1767571200000,
      1768176000000] ''weekly'' = 3"
proof -
  let ?first = "1766361600000 :: timestamp"
  let ?csa = "[1768780800000, 1766361600000, 1767139200000, 1766966400000, 1767571200000,
      1768176000000] :: timestamp list"
  let ?csb = "[1768780800000, 1766361600000, 1766966400000, 1767571200000, 1767571200000,
      1768176000000] :: timestamp list"
  have years: "getFullYear 0 1766361600000 = 2025" "getFullYear 0 1766966400000 = 2025"
    "getFullYear 0 1767571200000 = 2026" "getFullYear 0 1768176000000 = 2026"
    "getFullYear 0 1768780800000 = 2026"
    by code_simp+
  have days: "localDay 0 1767571200000 - localDay 0 1766966400000 \<le> 13"
    by (simp add: localDay_def LocalTime_def Day_def msPerDay_def)
  have occ: "weeklyOccurrences ?first 2 = [1766361600000, 1766966400000]"
    "weeklyOccurrences (addDays ?first (7 * int 2)) 3
       = [1767571200000, 1768176000000, 1768780800000]"
    "weeklyOccurrences ?first (2 + 3)
       = [1766361600000, 1766966400000, 1767571200000, 1768176000000, 1768780800000]"
    by code_simp+
  have wd: "getDay 0 ?first = 1" "getDay 0 1766966400000 = 1" "getDay 0 1767571200000 = 1"
    "getDay 0 1768176000000 = 1" "getDay 0 1768780800000 = 1" "getDay 0 1767139200000 = 3"
    by (simp_all add: getDay_def localDay_def LocalTime_def Day_def msPerDay_def)
  have monday: "dayMap ''monday'' = Some (getDay 0 ?first)" by (simp add: wd dayMap_def)
  have pair: "100 \<le> getFullYear 0 1766966400000 \<and>
      getFullYear 0 1766966400000 < getFullYear 0 1767571200000 \<and>
      localDay 0 1767571200000 - localDay 0 1766966400000 \<le> 13"
    using days by (simp add: years)
  have run: "100 \<le> getFullYear 0 ?first \<and> 1 \<le> (2 :: nat) \<and> 1 \<le> (3 :: nat) \<and>
    (\<forall>c\<in>set (weeklyOccurrences ?first 2). getFullYear 0 c = getFullYear 0 ?first) \<and>
    (\<forall>c\<in>set (weeklyOccurrences (addDays ?first (7 * int 2)) 3).
        getFullYear 0 c = getFullYear 0 ?first + 1)"
    unfolding occ by (simp add: years)
  have ea: "dayMap ''monday'' = Some (getDay 0 ?first) \<and>
       mset (filter (\<lambda>c. getDay 0 c = getDay 0 ?first) ?csa)
         = mset (weeklyOccurrences ?first (2 + 3))"
    unfolding occ using monday by (simp add: wd add_mset_commute)
  have eb: "2 + 3 \<le> (48 :: nat) \<and> set ?csb = set (weeklyOccurrences ?first (2 + 3))"
    unfolding occ by auto
  note ta = week_numbers_restart_each_year
    [where tz = 0 and a = 1766966400000 and b = 1767571200000 and first = ?first
       and m = 2 and n = 3 and dayName = "''monday''" and completions = ?csa]
  note tb = week_numbers_restart_each_year
    [where tz = 0 and a = 1766966400000 and b = 1767571200000 and first = ?first
       and m = 2 and n = 3 and dayName = "''monday''" and completions = ?csb]
  from ta [THEN conjunct1, THEN mp, OF pair]
  have one: "getWeekNumber 0 1767571200000 \<le> 3 \<and> 51 \<le> getWeekNumber 0 1766966400000 \<and>
    getWeekNumber 0 1767571200000 \<noteq> getWeekNumber 0 1766966400000 + 1" .
  from ta [THEN conjunct2, THEN mp, OF run, THEN conjunct1, THEN mp, OF ea]
  have two: "calculateLongestStreak 0 ?csa ''monday'' = 3" by simp
  from tb [THEN conjunct2, THEN mp, OF run, THEN conjunct2, THEN mp, OF eb]
  have three: "calculateLongestStreak 0 ?csb ''weekly'' = 3" by simp
  from one two three show ?thesis by simp
qed

end
